theory Spec2Isabelle
  imports Complex_Main "HOL-Library.Char_ord" "HOL-Library.AList" "HOL-Library.Multiset"
begin

section \<open>JavaScript values\<close>

text \<open>
  The data service works on weakly typed field bags. A value is one of the primitives
  \<open>undefined\<close>, \<open>null\<close>, a boolean, a number, a string or a Symbol, or a plain
  object given by its own string-keyed properties in insertion order. Numbers are
  \<open>NaN\<close> or integers, taken to lie in the range \<open>-2^53 .. 2^53\<close> where a double
  holds every integer exactly and prints it in plain decimal digits; strings are sequences
  of code units below 256; a Symbol is given by a number that tells it from the others.
  Fractional and infinite numbers, big integers, functions, arrays and objects with
  accessors or symbol-keyed properties are outside the model: forms and the persistence
  backend deliver none of them. Property lookup sees own properties only, except where a
  lookup by an arbitrary caller-supplied name reaches \<open>Object.prototype\<close>
  (\<open>validators[type]\<close> and \<open>AuthService.users[name]\<close>), which is modelled by name.
\<close>

datatype jsval =
    JUndef
  | JNull
  | JBool bool
  | JNum int
  | JNaN
  | JStr string
  | JSym nat
  | JObj "(string \<times> jsval) list"

type_synonym obj = "(string \<times> jsval) list"

text \<open>A thrown exception: a \<open>TypeError\<close> raised by the engine, or \<open>new Error(message)\<close>.\<close>

datatype js_error = TypeError | Error string

definition bind_res :: "js_error + 'a \<Rightarrow> ('a \<Rightarrow> js_error + 'b) \<Rightarrow> js_error + 'b" where
  "bind_res m f = (case m of Inl e \<Rightarrow> Inl e | Inr x \<Rightarrow> f x)"

text \<open>\<open>!v\<close> is \<open>\<not> truthy v\<close>.\<close>

fun truthy :: "jsval \<Rightarrow> bool" where
  "truthy JUndef = False"
| "truthy JNull = False"
| "truthy (JBool b) = b"
| "truthy (JNum n) = (n \<noteq> 0)"
| "truthy JNaN = False"
| "truthy (JStr s) = (s \<noteq> [])"
| "truthy (JSym i) = True"
| "truthy (JObj fs) = True"

text \<open>\<open>a || b\<close>\<close>

definition js_or :: "jsval \<Rightarrow> jsval \<Rightarrow> jsval" where
  "js_or a b = (if truthy a then a else b)"

text \<open>
  \<open>a === b\<close>. \<open>NaN\<close> equals nothing, a Symbol only itself. Two objects are equal only when they are the
  same reference; the objects compared here come from different sources (a stored record
  against a filter value or an identity), so they never are.
\<close>

fun strict_eq :: "jsval \<Rightarrow> jsval \<Rightarrow> bool" where
  "strict_eq JUndef JUndef = True"
| "strict_eq JNull JNull = True"
| "strict_eq (JBool a) (JBool b) = (a = b)"
| "strict_eq (JNum a) (JNum b) = (a = b)"
| "strict_eq (JStr a) (JStr b) = (a = b)"
| "strict_eq (JSym a) (JSym b) = (a = b)"
| "strict_eq a b = False"

text \<open>\<open>[s1, ..., sn].includes(v)\<close> for an array of string literals.\<close>

fun js_includes :: "string list \<Rightarrow> jsval \<Rightarrow> bool" where
  "js_includes xs (JStr s) = (s \<in> set xs)"
| "js_includes xs v = False"

subsection \<open>Numbers and strings\<close>

definition is_digit :: "char \<Rightarrow> bool" where
  "is_digit c = (c \<in> set ''0123456789'')"

definition is_lower :: "char \<Rightarrow> bool" where
  "is_lower c = (c \<in> set ''abcdefghijklmnopqrstuvwxyz'')"

definition is_upper :: "char \<Rightarrow> bool" where
  "is_upper c = (c \<in> set ''ABCDEFGHIJKLMNOPQRSTUVWXYZ'')"

definition digit_val :: "char \<Rightarrow> nat" where
  "digit_val c = of_char c - 48"

definition nat_of_digits :: "string \<Rightarrow> nat" where
  "nat_of_digits ds = foldl (\<lambda>a c. 10 * a + digit_val c) 0 ds"

fun show_nat :: "nat \<Rightarrow> string" where
  "show_nat n =
     (if n < 10 then [''0123456789'' ! n]
      else show_nat (n div 10) @ [''0123456789'' ! (n mod 10)])"

declare show_nat.simps [simp del]

text \<open>\<open>String(n)\<close> for an integer \<open>n\<close>.\<close>

definition show_int :: "int \<Rightarrow> string" where
  "show_int i = (if i < 0 then CHR ''-'' # show_nat (nat (- i)) else show_nat (nat i))"

text \<open>
  Own properties. A string has \<open>length\<close> and its indices; the other primitives have none.
  \<open>own_prop\<close> is also the optional chaining \<open>v?.[k]\<close>, which yields \<open>undefined\<close>
  on \<open>undefined\<close> and \<open>null\<close>; the plain \<open>v[k]\<close> throws there.
\<close>

definition is_index :: "string \<Rightarrow> bool" where
  "is_index k = (k \<noteq> [] \<and> list_all is_digit k \<and> show_nat (nat_of_digits k) = k)"

definition get_own :: "obj \<Rightarrow> string \<Rightarrow> jsval" where
  "get_own fs k = (case map_of fs k of Some v \<Rightarrow> v | None \<Rightarrow> JUndef)"

fun own_prop :: "jsval \<Rightarrow> string \<Rightarrow> jsval" where
  "own_prop (JObj fs) k = get_own fs k"
| "own_prop (JStr s) k =
     (if k = ''length'' then JNum (int (length s))
      else if is_index k \<and> nat_of_digits k < length s then JStr [s ! nat_of_digits k]
      else JUndef)"
| "own_prop v k = JUndef"

fun get_prop :: "jsval \<Rightarrow> string \<Rightarrow> js_error + jsval" where
  "get_prop JUndef k = Inl TypeError"
| "get_prop JNull k = Inl TypeError"
| "get_prop v k = Inr (own_prop v k)"

text \<open>
  Conversion to a primitive and to a string. A plain object converts through the inherited
  \<open>toString\<close> to \<open>[object Object]\<close>; an own property named \<open>toString\<close> shadows it,
  is not callable (no value of the model is), and the conversion throws. A Symbol is a
  primitive that converts neither to a string nor to a number: both throw.
\<close>

fun to_string :: "jsval \<Rightarrow> js_error + string" where
  "to_string JUndef = Inr ''undefined''"
| "to_string JNull = Inr ''null''"
| "to_string (JBool b) = Inr (if b then ''true'' else ''false'')"
| "to_string (JNum n) = Inr (show_int n)"
| "to_string JNaN = Inr ''NaN''"
| "to_string (JStr s) = Inr s"
| "to_string (JSym i) = Inl TypeError"
| "to_string (JObj fs) =
     (if ''toString'' \<in> fst ` set fs then Inl TypeError else Inr ''[object Object]'')"

fun to_primitive :: "jsval \<Rightarrow> js_error + jsval" where
  "to_primitive (JObj fs) = bind_res (to_string (JObj fs)) (\<lambda>s. Inr (JStr s))"
| "to_primitive v = Inr v"

text \<open>
  The values that convert to a string, and with that to a number: all but the Symbols and
  the objects with an own \<open>toString\<close>.
\<close>

definition convertible :: "jsval \<Rightarrow> bool" where
  "convertible v = (case to_string v of Inl err \<Rightarrow> False | Inr str \<Rightarrow> True)"

text \<open>
  The numeric results of conversions: finite numbers are kept exact (as rationals, rounding
  to the nearest double is not modelled), with \<open>NaN\<close> and the two infinities.
\<close>

datatype jsnum = NumNaN | NumNegInf | NumFin rat | NumPosInf

definition is_space :: "char \<Rightarrow> bool" where
  "is_space c = (c \<in> set [CHR 0x09, CHR 0x0A, CHR 0x0B, CHR 0x0C, CHR 0x0D, CHR 0x20, CHR 0xA0])"

definition trim_start :: "string \<Rightarrow> string" where
  "trim_start s = dropWhile is_space s"

definition trim :: "string \<Rightarrow> string" where
  "trim s = rev (dropWhile is_space (rev (dropWhile is_space s)))"

definition pow10 :: "int \<Rightarrow> rat" where
  "pow10 e = (if 0 \<le> e then 10 ^ nat e else 1 / 10 ^ nat (- e))"

text \<open>An optional sign: whether it is a minus, and the rest.\<close>

fun opt_sign :: "string \<Rightarrow> bool \<times> string" where
  "opt_sign [] = (False, [])"
| "opt_sign (c # r) =
     (if c = CHR ''-'' then (True, r) else if c = CHR ''+'' then (False, r) else (False, c # r))"

text \<open>An optional exponent part \<open>e[+-]ddd\<close>: its value and the rest.\<close>

fun exponent_part :: "string \<Rightarrow> int \<times> string" where
  "exponent_part [] = (0, [])"
| "exponent_part (c # r) =
     (if c = CHR ''e'' \<or> c = CHR ''E'' then
        (let (neg, r') = opt_sign r; ds = takeWhile is_digit r' in
         if ds = [] then (0, c # r)
         else ((if neg then - int (nat_of_digits ds) else int (nat_of_digits ds)),
               dropWhile is_digit r'))
      else (0, c # r))"

text \<open>
  The longest prefix that is a signed decimal literal (\<open>StrDecimalLiteral\<close>), with the
  rest of the string; \<open>None\<close> when no prefix is one.
\<close>

definition parse_decimal :: "string \<Rightarrow> (jsnum \<times> string) option" where
  "parse_decimal s =
     (let (neg, s1) = opt_sign s in
      if take 8 s1 = ''Infinity'' then Some (if neg then NumNegInf else NumPosInf, drop 8 s1)
      else
        let ip = takeWhile is_digit s1;
            r1 = dropWhile is_digit s1;
            (fp, r2) = (case r1 of
                          [] \<Rightarrow> ([], r1)
                        | c # r \<Rightarrow> if c = CHR ''.'' then (takeWhile is_digit r, dropWhile is_digit r)
                                   else ([], r1))
        in if ip = [] \<and> fp = [] then None
           else
             let m = rat_of_nat (nat_of_digits (ip @ fp)) / 10 ^ length fp;
                 (e, r3) = exponent_part r2
             in Some (NumFin ((if neg then - m else m) * pow10 e), r3))"

text \<open>\<open>parseFloat(v)\<close>\<close>

definition parseFloat :: "jsval \<Rightarrow> js_error + jsnum" where
  "parseFloat v =
     bind_res (to_string v) (\<lambda>s.
       Inr (case parse_decimal (trim_start s) of None \<Rightarrow> NumNaN | Some (n, r) \<Rightarrow> n))"

text \<open>Literals in another radix (\<open>0x\<close>, \<open>0o\<close>, \<open>0b\<close>), as \<open>Number(string)\<close> reads them.\<close>

definition radix_digit :: "char \<Rightarrow> nat option" where
  "radix_digit c =
     (if is_digit c then Some (digit_val c)
      else if c \<in> set ''abcdef'' then Some (of_char c - 87)
      else if c \<in> set ''ABCDEF'' then Some (of_char c - 55)
      else None)"

definition radix_value :: "nat \<Rightarrow> string \<Rightarrow> jsnum" where
  "radix_value b ds =
     (if ds \<noteq> [] \<and> list_all (\<lambda>c. case radix_digit c of None \<Rightarrow> False | Some d \<Rightarrow> d < b) ds
      then NumFin (rat_of_nat (foldl (\<lambda>a c. case radix_digit c of
                                                 None \<Rightarrow> a
                                               | Some d \<Rightarrow> b * a + d) 0 ds))
      else NumNaN)"

definition string_to_number :: "string \<Rightarrow> jsnum" where
  "string_to_number s =
     (let t = trim s in
      if t = [] then NumFin 0
      else if take 2 t \<in> set [''0x'', ''0X''] then radix_value 16 (drop 2 t)
      else if take 2 t \<in> set [''0o'', ''0O''] then radix_value 8 (drop 2 t)
      else if take 2 t \<in> set [''0b'', ''0B''] then radix_value 2 (drop 2 t)
      else (case parse_decimal t of
              None \<Rightarrow> NumNaN
            | Some (n, r) \<Rightarrow> if r = [] then n else NumNaN))"

text \<open>\<open>Number(v)\<close>\<close>

fun to_number :: "jsval \<Rightarrow> js_error + jsnum" where
  "to_number JUndef = Inr NumNaN"
| "to_number JNull = Inr (NumFin 0)"
| "to_number (JBool b) = Inr (NumFin (if b then 1 else 0))"
| "to_number (JNum n) = Inr (NumFin (rat_of_int n))"
| "to_number JNaN = Inr NumNaN"
| "to_number (JStr s) = Inr (string_to_number s)"
| "to_number (JSym i) = Inl TypeError"
| "to_number (JObj fs) = bind_res (to_string (JObj fs)) (\<lambda>s. Inr (string_to_number s))"

text \<open>\<open>x < y\<close> on numbers; \<open>None\<close> is the undefined result of a comparison with \<open>NaN\<close>.\<close>

fun num_less :: "jsnum \<Rightarrow> jsnum \<Rightarrow> bool option" where
  "num_less NumNaN y = None"
| "num_less x NumNaN = None"
| "num_less NumNegInf y = Some (y \<noteq> NumNegInf)"
| "num_less x NumNegInf = Some False"
| "num_less NumPosInf y = Some False"
| "num_less x NumPosInf = Some True"
| "num_less (NumFin a) (NumFin b) = Some (a < b)"

text \<open>Strings compare by code units.\<close>

fun str_less :: "string \<Rightarrow> string \<Rightarrow> bool" where
  "str_less [] [] = False"
| "str_less [] (d # t) = True"
| "str_less (c # s) [] = False"
| "str_less (c # s) (d # t) = (c < d \<or> (c = d \<and> str_less s t))"

text \<open>
  The abstract relational comparison behind \<open><\<close> and \<open>>=\<close>: both operands are
  converted to primitives, left first; two strings compare as strings, anything else
  as numbers.
\<close>

definition is_less_than :: "jsval \<Rightarrow> jsval \<Rightarrow> js_error + bool option" where
  "is_less_than x y =
     bind_res (to_primitive x) (\<lambda>px.
     bind_res (to_primitive y) (\<lambda>py.
       case (px, py) of
         (JStr a, JStr b) \<Rightarrow> Inr (Some (str_less a b))
       | _ \<Rightarrow> bind_res (to_number px) (\<lambda>nx.
             bind_res (to_number py) (\<lambda>ny. Inr (num_less nx ny)))))"

text \<open>\<open>x < y\<close>\<close>

definition js_lt :: "jsval \<Rightarrow> jsval \<Rightarrow> js_error + bool" where
  "js_lt x y = bind_res (is_less_than x y) (\<lambda>r. Inr (r = Some True))"

text \<open>\<open>x >= y\<close>\<close>

definition js_ge :: "jsval \<Rightarrow> jsval \<Rightarrow> js_error + bool" where
  "js_ge x y = bind_res (is_less_than x y) (\<lambda>r. Inr (r = Some False))"

section \<open>Configuration\<close>

text \<open>
  \<open>AppConfig.get\<close> reads the current configuration, which is the defaults overlaid with
  what local storage holds. The four settings the data service reads are taken as they are
  typed in the defaults.
\<close>

record config =
  cache_enabled :: bool
  cache_ttl :: int
  max_data_items :: nat
  password_min_length :: nat

definition default_config :: config where
  "default_config =
     \<lparr>cache_enabled = True, cache_ttl = 300000, max_data_items = 999, password_min_length = 6\<rparr>"

section \<open>Validation\<close>

text \<open>
  A validator returns \<open>{valid, message?}\<close>. \<open>Other v\<close> stands for a returned
  value \<open>v\<close> of any other shape, which only a member inherited from
  \<open>Object.prototype\<close> and called in a validator's place produces.
\<close>

datatype validation = Verdict bool "string option" | Other jsval

text \<open>
  \<open>validation.valid\<close> as a condition, and the error \<open>new Error(validation.message)\<close>,
  whose message is empty when there is none and is converted to a string otherwise.
\<close>

fun is_valid :: "validation \<Rightarrow> bool" where
  "is_valid (Verdict v m) = v"
| "is_valid (Other v) = truthy (own_prop v ''valid'')"

fun rejection :: "validation \<Rightarrow> js_error" where
  "rejection (Verdict v None) = Error []"
| "rejection (Verdict v (Some m)) = Error m"
| "rejection (Other v) =
     (if own_prop v ''message'' = JUndef then Error []
      else (case to_string (own_prop v ''message'') of Inl err \<Rightarrow> err | Inr m \<Rightarrow> Error m))"

text \<open>\<open>/re/.test(v)\<close> converts \<open>v\<close> to a string first.\<close>

definition regex_test :: "(string \<Rightarrow> bool) \<Rightarrow> jsval \<Rightarrow> js_error + bool" where
  "regex_test re v = bind_res (to_string v) (\<lambda>s. Inr (re s))"

text \<open>\<open>/^\d{n}$/\<close>\<close>

definition exactly_digits :: "nat \<Rightarrow> string \<Rightarrow> bool" where
  "exactly_digits n s = (length s = n \<and> list_all is_digit s)"

subsection \<open>Password strength (SecurityService.validatePassword)\<close>

definition validatePassword :: "config \<Rightarrow> jsval \<Rightarrow> js_error + validation" where
  "validatePassword cfg password =
     bind_res (get_prop password ''length'') (\<lambda>len.
     bind_res (js_lt len (JNum (int (password_min_length cfg)))) (\<lambda>too_short.
       if too_short then
         Inr (Verdict False
               (Some (''Password minimal '' @ show_nat (password_min_length cfg) @ '' karakter'')))
       else
     bind_res (regex_test (list_ex is_lower) password) (\<lambda>lower.
       if \<not> lower then Inr (Verdict False (Some ''Password harus mengandung huruf kecil''))
       else
     bind_res (regex_test (list_ex is_upper) password) (\<lambda>upper.
       if \<not> upper then Inr (Verdict False (Some ''Password harus mengandung huruf besar''))
       else
     bind_res (regex_test (list_ex is_digit) password) (\<lambda>digit.
       if \<not> digit then Inr (Verdict False (Some ''Password harus mengandung angka''))
       else Inr (Verdict True (Some ''Password kuat'')))))))"

subsection \<open>The required-field loop\<close>

text \<open>
  \<open>for (const field of required) if (!data[field]) return {valid: false, message: ...}\<close>:
  the first required field whose value is falsy, if any. Reading a property of
  \<open>undefined\<close> or \<open>null\<close> throws.
\<close>

fun check_required :: "string list \<Rightarrow> jsval \<Rightarrow> js_error + string option" where
  "check_required [] data = Inr None"
| "check_required (field # others) data =
     (case get_prop data field of
        Inl e \<Rightarrow> Inl e
      | Inr v \<Rightarrow> if \<not> truthy v then Inr (Some field) else check_required others data)"

definition missing_field :: "string \<Rightarrow> validation" where
  "missing_field field = Verdict False (Some (field @ '' wajib diisi''))"

definition required_then ::
  "string list \<Rightarrow> jsval \<Rightarrow> (js_error + validation) \<Rightarrow> js_error + validation" where
  "required_then required data domain_checks =
     (case check_required required data of
        Inl e \<Rightarrow> Inl e
      | Inr (Some field) \<Rightarrow> Inr (missing_field field)
      | Inr None \<Rightarrow> domain_checks)"

subsection \<open>The ten validators\<close>

text \<open>
  Each validator is its required-field loop followed by its own checks. Every list of
  required fields is non-empty, so the loop has already thrown on \<open>undefined\<close> and
  \<open>null\<close> when the later checks read their fields; those reads are written
  \<open>own_prop\<close>.
\<close>

definition object_prototype_names :: "string list" where
  "object_prototype_names =
     [''constructor'', ''__defineGetter__'', ''__defineSetter__'', ''hasOwnProperty'',
      ''__lookupGetter__'', ''__lookupSetter__'', ''isPrototypeOf'', ''propertyIsEnumerable'',
      ''toString'', ''valueOf'', ''__proto__'', ''toLocaleString'']"

definition guru_required :: "string list" where
  "guru_required = [''title'', ''nip'', ''mapel'', ''role'', ''username'', ''password'']"

text \<open>
  \<open>AuthService.users[name] && AuthService.users[name].username !== name\<close>, for a truthy
  \<open>name\<close>. The index is an object keyed by user names. A binding of \<open>__proto__\<close> to
  an object stands for the prototype that an assignment to that name gave the index (see
  \<open>add_guru_users\<close>); the name \<open>__proto__\<close> itself reads that prototype. A name
  the index does not own is looked up in the prototype, and then in \<open>Object.prototype\<close>,
  each of whose members is truthy and has no \<open>username\<close>. A Symbol is a property key
  of its own, which the index, keyed by strings, does not have.
\<close>

definition claimed_by_other :: "jsval \<Rightarrow> jsval \<Rightarrow> bool" where
  "claimed_by_other entry name = (truthy entry \<and> \<not> strict_eq (own_prop entry ''username'') name)"

definition index_prototype :: "obj \<Rightarrow> obj" where
  "index_prototype users = (case map_of users ''__proto__'' of Some (JObj proto) \<Rightarrow> proto | _ \<Rightarrow> [])"

definition username_taken :: "obj \<Rightarrow> jsval \<Rightarrow> js_error + bool" where
  "username_taken users name =
     (case name of
        JSym i \<Rightarrow> Inr False
      | _ \<Rightarrow>
          bind_res (to_string name) (\<lambda>key.
            Inr (if key = ''__proto__'' then claimed_by_other (JObj (index_prototype users)) name
                 else
                   (case map_of users key of
                      Some entry \<Rightarrow> claimed_by_other entry name
                    | None \<Rightarrow>
                        (case map_of (index_prototype users) key of
                           Some inherited \<Rightarrow> claimed_by_other inherited name
                         | None \<Rightarrow> key \<in> set object_prototype_names)))))"

definition validateGuruData :: "config \<Rightarrow> obj \<Rightarrow> jsval \<Rightarrow> js_error + validation" where
  "validateGuruData cfg users data =
     required_then guru_required data
      (bind_res (regex_test (exactly_digits 18) (own_prop data ''nip'')) (\<lambda>nip_ok.
         if \<not> nip_ok then Inr (Verdict False (Some ''NIP harus 18 digit''))
         else
       bind_res (validatePassword cfg (own_prop data ''password'')) (\<lambda>passwordValidation.
         if \<not> is_valid passwordValidation then Inr passwordValidation
         else
       bind_res (username_taken users (own_prop data ''username'')) (\<lambda>taken.
         if taken then Inr (Verdict False (Some ''Username sudah digunakan''))
         else Inr (Verdict True None)))))"

definition siswa_required :: "string list" where
  "siswa_required = [''title'', ''nisn'', ''jenis_kelamin'', ''class'']"

definition validateSiswaData :: "jsval \<Rightarrow> js_error + validation" where
  "validateSiswaData data =
     required_then siswa_required data
      (bind_res (regex_test (exactly_digits 10) (own_prop data ''nisn'')) (\<lambda>nisn_ok.
         if \<not> nisn_ok then Inr (Verdict False (Some ''NISN harus 10 digit''))
         else if \<not> js_includes [''L'', ''P''] (own_prop data ''jenis_kelamin'')
         then Inr (Verdict False (Some ''Jenis kelamin harus L atau P''))
         else Inr (Verdict True None)))"

definition kelas_required :: "string list" where
  "kelas_required = [''title'', ''tingkat'', ''jurusan'']"

definition validateKelasData :: "jsval \<Rightarrow> js_error + validation" where
  "validateKelasData data =
     required_then kelas_required data
      (if \<not> js_includes [''X'', ''XI'', ''XII''] (own_prop data ''tingkat'')
       then Inr (Verdict False (Some ''Tingkat harus X, XI, atau XII''))
       else Inr (Verdict True None))"

definition intra_required :: "string list" where
  "intra_required = [''judul_modul'', ''mata_pelajaran'', ''kelas'', ''fase'', ''penulis'']"

definition validateIntraData :: "jsval \<Rightarrow> js_error + validation" where
  "validateIntraData data = required_then intra_required data (Inr (Verdict True None))"

definition jurnal_required :: "string list" where
  "jurnal_required =
     [''nama_guru'', ''kelas'', ''hari'', ''tanggal'', ''mata_pelajaran'', ''materi_pokok'']"

definition validateJurnalData :: "jsval \<Rightarrow> js_error + validation" where
  "validateJurnalData data =
     required_then jurnal_required data
      (if truthy (own_prop data ''waktu_mulai'') \<and> truthy (own_prop data ''waktu_selesai'') then
         bind_res (js_ge (own_prop data ''waktu_mulai'') (own_prop data ''waktu_selesai'')) (\<lambda>ge.
           if ge then Inr (Verdict False (Some ''Waktu mulai harus sebelum waktu selesai''))
           else Inr (Verdict True None))
       else Inr (Verdict True None))"

definition absensi_required :: "string list" where
  "absensi_required = [''student_name'', ''class'', ''status'', ''date'']"

definition validateAbsensiData :: "jsval \<Rightarrow> js_error + validation" where
  "validateAbsensiData data =
     required_then absensi_required data
      (if \<not> js_includes [''Hadir'', ''Sakit'', ''Izin'', ''Alpha''] (own_prop data ''status'')
       then Inr (Verdict False (Some ''Status tidak valid''))
       else Inr (Verdict True None))"

definition nilai_required :: "string list" where
  "nilai_required =
     [''student_name'', ''class'', ''mata_pelajaran'', ''jenis_penilaian'', ''nilai'', ''date'']"

definition validateNilaiData :: "jsval \<Rightarrow> js_error + validation" where
  "validateNilaiData data =
     required_then nilai_required data
      (bind_res (parseFloat (own_prop data ''nilai'')) (\<lambda>nilai.
         if nilai = NumNaN \<or> num_less nilai (NumFin 0) = Some True
            \<or> num_less (NumFin 100) nilai = Some True
         then Inr (Verdict False (Some ''Nilai harus antara 0 dan 100''))
         else Inr (Verdict True None)))"

definition perilaku_required :: "string list" where
  "perilaku_required = [''student_name'', ''class'', ''jenis_perilaku'', ''catatan'', ''date'']"

definition validatePerilakuData :: "jsval \<Rightarrow> js_error + validation" where
  "validatePerilakuData data =
     required_then perilaku_required data
      (if \<not> js_includes [''Positif'', ''Negatif'', ''Netral''] (own_prop data ''jenis_perilaku'')
       then Inr (Verdict False (Some ''Jenis perilaku tidak valid''))
       else Inr (Verdict True None))"

definition bk_absensi_required :: "string list" where
  "bk_absensi_required = [''student_name'', ''class'', ''status'', ''date'', ''waktu'']"

definition validateBKAbsensiData :: "jsval \<Rightarrow> js_error + validation" where
  "validateBKAbsensiData data =
     required_then bk_absensi_required data
      (if \<not> js_includes [''Hadir'', ''Sakit'', ''Izin'', ''Alpha'', ''Terlambat'']
               (own_prop data ''status'')
       then Inr (Verdict False (Some ''Status tidak valid''))
       else Inr (Verdict True None))"

definition bk_pelanggaran_required :: "string list" where
  "bk_pelanggaran_required =
     [''student_name'', ''class'', ''kategori_pelanggaran'', ''jenis_pelanggaran'', ''lokasi'',
      ''kronologi'', ''tindak_lanjut'']"

definition validateBKPelanggaranData :: "jsval \<Rightarrow> js_error + validation" where
  "validateBKPelanggaranData data =
     required_then bk_pelanggaran_required data
      (if \<not> js_includes [''Ringan'', ''Sedang'', ''Berat''] (own_prop data ''kategori_pelanggaran'')
       then Inr (Verdict False (Some ''Kategori pelanggaran tidak valid''))
       else Inr (Verdict True None))"

subsection \<open>Dispatch (validateData)\<close>

text \<open>
  \<open>validators[type]\<close> finds one of the ten validators, or a member of
  \<open>Object.prototype\<close> when \<open>type\<close> names one; that member is truthy and is called as
  \<open>validator(data)\<close> with no receiver. \<open>toString\<close> returns the string
  \<open>[object Undefined]\<close>, \<open>constructor\<close> returns its argument as an object (a new
  empty one for \<open>undefined\<close> and \<open>null\<close>), \<open>isPrototypeOf\<close> returns
  \<open>false\<close> unless its argument is an object, and every other one (the accessor
  \<open>__proto__\<close>, which is not callable, included) throws a \<open>TypeError\<close>.
\<close>

definition inherited_member :: "string \<Rightarrow> jsval \<Rightarrow> js_error + validation" where
  "inherited_member member data =
     (if member = ''toString'' then Inr (Other (JStr ''[object Undefined]''))
      else if member = ''constructor'' then
        Inr (Other (if data = JUndef \<or> data = JNull then JObj [] else data))
      else if member = ''isPrototypeOf'' then
        (case data of JObj fs \<Rightarrow> Inl TypeError | _ \<Rightarrow> Inr (Other (JBool False)))
      else Inl TypeError)"

definition basic_validation :: "jsval \<Rightarrow> js_error + validation" where
  "basic_validation data =
     bind_res (get_prop data ''title'') (\<lambda>title.
       if \<not> truthy title then Inr (Verdict False (Some ''Title dan content wajib diisi''))
       else
     bind_res (get_prop data ''content'') (\<lambda>content.
       if \<not> truthy content then Inr (Verdict False (Some ''Title dan content wajib diisi''))
       else Inr (Verdict True None)))"

definition validateData :: "config \<Rightarrow> obj \<Rightarrow> string \<Rightarrow> jsval \<Rightarrow> js_error + validation" where
  "validateData cfg users ty data =
     (if ty = ''guru'' then validateGuruData cfg users data
      else if ty = ''siswa'' then validateSiswaData data
      else if ty = ''kelas'' then validateKelasData data
      else if ty = ''intra'' then validateIntraData data
      else if ty = ''jurnal'' then validateJurnalData data
      else if ty = ''absensi'' then validateAbsensiData data
      else if ty = ''nilai'' then validateNilaiData data
      else if ty = ''perilaku'' then validatePerilakuData data
      else if ty = ''bk_absensi'' then validateBKAbsensiData data
      else if ty = ''bk_pelanggaran'' then validateBKPelanggaranData data
      else if ty \<in> set object_prototype_names then inherited_member ty data
      else basic_validation data)"

section \<open>The record store\<close>

text \<open>
  The world the data service runs in. \<open>store\<close> is what it mutates: its collection, its
  cache and the credential index of the Auth collaborator. \<open>env\<close> is what it reads on a
  call: the configuration, the signed-in identity, the clock (as milliseconds and as an ISO
  string), the engine's \<open>Date.parse\<close>, the persistence backend with its replies (absent
  when \<open>window.dataSdk\<close> is not set) and, for the refresh that follows a
  resynchronisation, the record types the page on display queries
  (\<open>UIService.renderCurrentPage\<close>: \<open>intra\<close> on the page of that name, none on the
  dashboard). Logging and notifications have no effect on either and are left out.
\<close>

record identity =
  role :: string
  name :: jsval

record cache_entry =
  entry_data :: "obj list"
  entry_timestamp :: int

record sdk_reply =
  isOk :: bool
  reply_data :: jsval

record backend =
  sdk_create :: "obj \<Rightarrow> sdk_reply"
  sdk_update :: "obj \<Rightarrow> sdk_reply"
  sdk_delete :: "obj \<Rightarrow> sdk_reply"

record env =
  cfg :: config
  currentUser :: "identity option"
  clock :: int
  clock_iso :: string
  date_parse :: "string \<Rightarrow> int option"
  dataSdk :: "backend option"
  page_queries :: "string list"

record store =
  allData :: "obj list"
  cache :: "string \<rightharpoonup> cache_entry"
  users :: obj

subsection \<open>Object helpers\<close>

text \<open>
  \<open>{...target, ...source}\<close>: the own enumerable properties of \<open>source\<close> are written
  over \<open>target\<close>. A string spreads its characters by index; the other primitives,
  \<open>undefined\<close> and \<open>null\<close> spread nothing.
\<close>

fun own_entries :: "jsval \<Rightarrow> obj" where
  "own_entries (JObj fs) = fs"
| "own_entries (JStr s) = map (\<lambda>i. (show_nat i, JStr [s ! i])) [0..<length s]"
| "own_entries v = []"

definition assign :: "obj \<Rightarrow> obj \<Rightarrow> obj" where
  "assign target source = fold (\<lambda>kv acc. AList.update (fst kv) (snd kv) acc) source target"

subsection \<open>JSON.stringify\<close>

definition hex_digit :: "nat \<Rightarrow> char" where
  "hex_digit d = ''0123456789abcdef'' ! d"

definition json_escape :: "char \<Rightarrow> string" where
  "json_escape c =
     (if c = CHR 0x22 then [CHR 0x5C, CHR 0x22]
      else if c = CHR 0x5C then [CHR 0x5C, CHR 0x5C]
      else if c = CHR 0x08 then [CHR 0x5C, CHR ''b'']
      else if c = CHR 0x0C then [CHR 0x5C, CHR ''f'']
      else if c = CHR 0x0A then [CHR 0x5C, CHR ''n'']
      else if c = CHR 0x0D then [CHR 0x5C, CHR ''r'']
      else if c = CHR 0x09 then [CHR 0x5C, CHR ''t'']
      else if (of_char c :: nat) < 32 then
        [CHR 0x5C, CHR ''u'', CHR ''0'', CHR ''0'', hex_digit (of_char c div 16),
         hex_digit (of_char c mod 16)]
      else [c])"

definition json_quote :: "string \<Rightarrow> string" where
  "json_quote s = [CHR 0x22] @ concat (map json_escape s) @ [CHR 0x22]"

fun join_commas :: "string list \<Rightarrow> string" where
  "join_commas [] = []"
| "join_commas [x] = x"
| "join_commas (x # y # zs) = x @ '','' @ join_commas (y # zs)"

text \<open>
  The order in which an object lists its own properties: the keys that are array indices
  first, ascending, then the others as they were added.
\<close>

definition int_of_digits :: "string \<Rightarrow> int" where
  "int_of_digits ds = foldl (\<lambda>a c. 10 * a + int (digit_val c)) 0 ds"

definition is_array_index :: "string \<Rightarrow> bool" where
  "is_array_index k =
     (k \<noteq> [] \<and> list_all is_digit k \<and> (k = ''0'' \<or> hd k \<noteq> CHR ''0'')
      \<and> length k \<le> 10 \<and> int_of_digits k < 4294967295)"

definition property_order :: "(string \<times> 'a) list \<Rightarrow> (string \<times> 'a) list" where
  "property_order fs =
     sort_key (\<lambda>kv. int_of_digits (fst kv)) (filter (\<lambda>kv. is_array_index (fst kv)) fs)
     @ filter (\<lambda>kv. \<not> is_array_index (fst kv)) fs"

text \<open>
  A property whose value serialises to nothing (\<open>undefined\<close>, a Symbol) is left out.
\<close>

definition json_object :: "(string \<times> string option) list \<Rightarrow> string" where
  "json_object members =
     ''{'' @ join_commas (concat (map (\<lambda>kv. case snd kv of
                                            None \<Rightarrow> []
                                          | Some t \<Rightarrow> [json_quote (fst kv) @ '':'' @ t])
                                  (property_order members)))
     @ ''}''"

primrec json_value :: "jsval \<Rightarrow> string option" where
  "json_value JUndef = None"
| "json_value JNull = Some ''null''"
| "json_value (JBool b) = Some (if b then ''true'' else ''false'')"
| "json_value (JNum n) = Some (show_int n)"
| "json_value JNaN = Some ''null''"
| "json_value (JStr s) = Some (json_quote s)"
| "json_value (JSym i) = None"
| "json_value (JObj fs) = Some (json_object (map (map_prod id json_value) fs))"

definition json_stringify :: "obj \<Rightarrow> string" where
  "json_stringify fs = json_object (map (map_prod id json_value) fs)"

subsection \<open>Query cache\<close>

definition getCachedData :: "env \<Rightarrow> store \<Rightarrow> string \<Rightarrow> obj list option" where
  "getCachedData e s key =
     (if \<not> cache_enabled (cfg e) then None
      else case cache s key of
             None \<Rightarrow> None
           | Some cached \<Rightarrow>
               if clock e - entry_timestamp cached < cache_ttl (cfg e)
               then Some (entry_data cached) else None)"

definition setCachedData :: "env \<Rightarrow> store \<Rightarrow> string \<Rightarrow> obj list \<Rightarrow> store" where
  "setCachedData e s key d =
     (if \<not> cache_enabled (cfg e) then s
      else s\<lparr>cache := (cache s)(key \<mapsto> \<lparr>entry_data = d, entry_timestamp = clock e\<rparr>)\<rparr>)"

definition invalidateCache :: "store \<Rightarrow> store" where
  "invalidateCache s = s\<lparr>cache := Map.empty\<rparr>"

subsection \<open>Query (getFilteredData)\<close>

text \<open>The role-based filter, applied when someone is signed in.\<close>

definition role_filter :: "identity option \<Rightarrow> obj list \<Rightarrow> obj list" where
  "role_filter user xs =
     (case user of
        None \<Rightarrow> xs
      | Some u \<Rightarrow>
          if role u = ''siswa'' then
            filter (\<lambda>d. strict_eq (get_own d ''approved'') (JBool True)) xs
          else if role u = ''guru'' \<or> role u = ''bk'' then
            filter (\<lambda>d. strict_eq (get_own d ''author'') (name u)) xs
          else xs)"

text \<open>\<open>key.split('.')\<close>\<close>

fun split_dots :: "string \<Rightarrow> string list" where
  "split_dots [] = [[]]"
| "split_dots (c # s) =
     (if c = CHR ''.'' then [] # split_dots s
      else (case split_dots s of [] \<Rightarrow> [[c]] | p # ps \<Rightarrow> (c # p) # ps))"

text \<open>
  The value a filter key selects in an item: \<open>item[key]\<close>, or for a dotted key the walk
  \<open>itemValue = itemValue?.[k]\<close> along its parts. The walk is through own properties; a
  key that leads through an inherited member (\<open>constructor.name\<close>) is outside the
  model. The theorems about queries hold whatever the filters select.
\<close>

definition path_value :: "obj \<Rightarrow> string \<Rightarrow> jsval" where
  "path_value item key =
     (if CHR ''.'' \<in> set key then foldl own_prop (JObj item) (split_dots key)
      else get_own item key)"

definition apply_filter :: "obj \<Rightarrow> string \<Rightarrow> obj list \<Rightarrow> obj list" where
  "apply_filter filters key xs =
     (let v = get_own filters key in
      if v \<noteq> JUndef \<and> v \<noteq> JStr [] then filter (\<lambda>item. strict_eq (path_value item key) v) xs
      else xs)"

text \<open>The records a query selects, in collection order, before they are sorted.\<close>

definition matching :: "env \<Rightarrow> store \<Rightarrow> string \<Rightarrow> obj \<Rightarrow> obj list" where
  "matching e s ty filters =
     fold (apply_filter filters) (map fst filters)
       (role_filter (currentUser e)
         (filter (\<lambda>d. strict_eq (get_own d ''type'') (JStr ty)) (allData s)))"

text \<open>
  \<open>new Date(v).getTime()\<close>, \<open>None\<close> for the \<open>NaN\<close> of an invalid date: a string is
  parsed, any other primitive is converted to a number (which throws on a Symbol) and
  clipped to the range of time values.
\<close>

definition time_value :: "(string \<Rightarrow> int option) \<Rightarrow> jsval \<Rightarrow> js_error + int option" where
  "time_value parse v =
     bind_res (to_primitive v) (\<lambda>p.
       case p of
         JStr str \<Rightarrow> Inr (parse str)
       | JNum n \<Rightarrow> Inr (if \<bar>n\<bar> \<le> 8640000000000000 then Some n else None)
       | JBool b \<Rightarrow> Inr (Some (if b then 1 else 0))
       | JNull \<Rightarrow> Inr (Some 0)
       | JSym i \<Rightarrow> Inl TypeError
       | _ \<Rightarrow> Inr None)"

text \<open>\<open>new Date(d.createdAt || d.date)\<close>\<close>

definition sort_date :: "(string \<Rightarrow> int option) \<Rightarrow> obj \<Rightarrow> js_error + int option" where
  "sort_date parse d = time_value parse (js_or (get_own d ''createdAt'') (get_own d ''date''))"

text \<open>The time a record is sorted by, when that is a valid date.\<close>

definition created_time :: "env \<Rightarrow> obj \<Rightarrow> int" where
  "created_time e d = (case sort_date (date_parse e) d of Inr (Some t) \<Rightarrow> t | _ \<Rightarrow> 0)"

text \<open>
  The comparator \<open>(a, b) => new Date(b...) - new Date(a...)\<close> on the two dates; a
  \<open>NaN\<close> difference counts as \<open>0\<close> in \<open>Array.prototype.sort\<close>.
\<close>

definition date_compare :: "int option \<Rightarrow> int option \<Rightarrow> int" where
  "date_compare ta tb = (case (tb, ta) of (Some x, Some y) \<Rightarrow> x - y | _ \<Rightarrow> 0)"

text \<open>
  \<open>Array.prototype.sort(cmp)\<close> is stable: \<open>a\<close> stays before a later \<open>b\<close> unless
  \<open>cmp(a, b) > 0\<close>. For a consistent comparator that fixes the result, which this
  insertion sort computes.
\<close>

fun insert_sorted :: "('a \<Rightarrow> 'a \<Rightarrow> int) \<Rightarrow> 'a \<Rightarrow> 'a list \<Rightarrow> 'a list" where
  "insert_sorted cmp x [] = [x]"
| "insert_sorted cmp x (y # ys) =
     (if cmp x y > 0 then y # insert_sorted cmp x ys else x # y # ys)"

definition js_sort :: "('a \<Rightarrow> 'a \<Rightarrow> int) \<Rightarrow> 'a list \<Rightarrow> 'a list" where
  "js_sort cmp xs = foldr (insert_sorted cmp) xs []"

fun map_res :: "('a \<Rightarrow> js_error + 'b) \<Rightarrow> 'a list \<Rightarrow> js_error + 'b list" where
  "map_res f [] = Inr []"
| "map_res f (x # xs) =
     bind_res (f x) (\<lambda>y. bind_res (map_res f xs) (\<lambda>ys. Inr (y # ys)))"

text \<open>
  \<open>filteredData.sort(...)\<close>. The comparator is called on every element once there are
  two, so a date that cannot be converted throws then.
\<close>

definition sort_newest_first :: "(string \<Rightarrow> int option) \<Rightarrow> obj list \<Rightarrow> js_error + obj list" where
  "sort_newest_first parse xs =
     (if length xs < 2 then Inr xs
      else bind_res (map_res (\<lambda>d. bind_res (sort_date parse d) (\<lambda>t. Inr (d, t))) xs) (\<lambda>dated.
             Inr (map fst (js_sort (\<lambda>a b. date_compare (snd a) (snd b)) dated))))"

definition cache_key :: "string \<Rightarrow> obj \<Rightarrow> string" where
  "cache_key ty filters = ty @ ''_'' @ json_stringify filters"

definition getFilteredData ::
  "env \<Rightarrow> store \<Rightarrow> string \<Rightarrow> obj \<Rightarrow> (js_error + obj list) \<times> store" where
  "getFilteredData e s ty filters =
     (case getCachedData e s (cache_key ty filters) of
        Some cached \<Rightarrow> (Inr cached, s)
      | None \<Rightarrow>
          (case sort_newest_first (date_parse e) (matching e s ty filters) of
             Inl err \<Rightarrow> (Inl err, s)
           | Inr filteredData \<Rightarrow>
               (Inr filteredData, setCachedData e s (cache_key ty filters) filteredData)))"

subsection \<open>Mutation gate\<close>

definition canUpdateData :: "env \<Rightarrow> obj \<Rightarrow> bool" where
  "canUpdateData e d =
     (case currentUser e of
        None \<Rightarrow> False
      | Some u \<Rightarrow> if role u = ''admin'' then True else strict_eq (get_own d ''author'') (name u))"

definition canDeleteData :: "env \<Rightarrow> obj \<Rightarrow> bool" where
  "canDeleteData e d =
     (case currentUser e of
        None \<Rightarrow> False
      | Some u \<Rightarrow> if role u = ''admin'' then True else strict_eq (get_own d ''author'') (name u))"

subsection \<open>Create, update, delete\<close>

text \<open>
  Each operation runs in a \<open>try\<close> whose handler logs, notifies and rethrows, so an
  exception raised anywhere inside is the operation's outcome. The reply of the backend is
  awaited; the operation's own effect on the store is what is modelled.
\<close>

text \<open>
  \<open>{type, ...data, author, createdAt, approved}\<close>, stamped for the identity that creates
  the record.
\<close>

definition newData :: "env \<Rightarrow> identity \<Rightarrow> string \<Rightarrow> jsval \<Rightarrow> obj" where
  "newData e u ty data =
     assign (assign [(''type'', JStr ty)] (own_entries data))
       [(''author'', name u),
        (''createdAt'', JStr (clock_iso e)),
        (''approved'', JBool (role u = ''admin'' \<or> role u = ''kepsek''))]"

definition createData ::
  "env \<Rightarrow> store \<Rightarrow> string \<Rightarrow> jsval \<Rightarrow> (js_error + jsval) \<times> store" where
  "createData e s ty data =
     (case validateData (cfg e) (users s) ty data of
        Inl err \<Rightarrow> (Inl err, s)
      | Inr validation \<Rightarrow>
          if \<not> is_valid validation then (Inl (rejection validation), s)
          else if length (allData s) \<ge> max_data_items (cfg e)
          then (Inl (Error ''Batas maksimum data telah tercapai''), s)
          else
            (case currentUser e of
               None \<Rightarrow> (Inl TypeError, s)
             | Some u \<Rightarrow>
                 (case dataSdk e of
                    None \<Rightarrow> (Inl TypeError, s)
                  | Some sdk \<Rightarrow>
                      let result = sdk_create sdk (newData e u ty data) in
                      if isOk result then (Inr (reply_data result), invalidateCache s)
                      else (Inl (Error ''Gagal menyimpan data''), s))))"

definition find_by_id :: "store \<Rightarrow> jsval \<Rightarrow> obj option" where
  "find_by_id s ident = find (\<lambda>d. strict_eq (get_own d ''__backendId'') ident) (allData s)"

definition merged_update :: "env \<Rightarrow> obj \<Rightarrow> jsval \<Rightarrow> obj" where
  "merged_update e existingData data =
     assign (assign existingData (own_entries data)) [(''updatedAt'', JStr (clock_iso e))]"

definition updateData ::
  "env \<Rightarrow> store \<Rightarrow> jsval \<Rightarrow> jsval \<Rightarrow> (js_error + jsval) \<times> store" where
  "updateData e s ident data =
     (case find_by_id s ident of
        None \<Rightarrow> (Inl (Error ''Data tidak ditemukan''), s)
      | Some existingData \<Rightarrow>
          if \<not> canUpdateData e existingData
          then (Inl (Error ''Tidak memiliki izin untuk mengupdate data ini''), s)
          else
            (case dataSdk e of
               None \<Rightarrow> (Inl TypeError, s)
             | Some sdk \<Rightarrow>
                 let result = sdk_update sdk (merged_update e existingData data) in
                 if isOk result then (Inr (reply_data result), invalidateCache s)
                 else (Inl (Error ''Gagal mengupdate data''), s)))"

definition deleteData :: "env \<Rightarrow> store \<Rightarrow> jsval \<Rightarrow> (js_error + bool) \<times> store" where
  "deleteData e s ident =
     (case find_by_id s ident of
        None \<Rightarrow> (Inl (Error ''Data tidak ditemukan''), s)
      | Some existingData \<Rightarrow>
          if \<not> canDeleteData e existingData
          then (Inl (Error ''Tidak memiliki izin untuk menghapus data ini''), s)
          else
            (case dataSdk e of
               None \<Rightarrow> (Inl TypeError, s)
             | Some sdk \<Rightarrow>
                 let result = sdk_delete sdk existingData in
                 if isOk result then (Inr True, invalidateCache s)
                 else (Inl (Error ''Gagal menghapus data''), s)))"

subsection \<open>Resynchronisation (handleDataChange)\<close>

definition defaultUsers :: obj where
  "defaultUsers =
     [(''admin'', JObj [(''password'', JStr ''admin123''), (''role'', JStr ''admin''),
                        (''name'', JStr ''Administrator'')]),
      (''kepsek'', JObj [(''password'', JStr ''kepsek123''), (''role'', JStr ''kepsek''),
                         (''name'', JStr ''Kepala Sekolah'')]),
      (''guru'', JObj [(''password'', JStr ''guru123''), (''role'', JStr ''guru''),
                       (''name'', JStr ''Guru Matematika'')]),
      (''bk'', JObj [(''password'', JStr ''bk123''), (''role'', JStr ''bk''),
                     (''name'', JStr ''Guru BK'')]),
      (''siswa'', JObj [(''password'', JStr ''siswa123''), (''role'', JStr ''siswa''),
                        (''name'', JStr ''Siswa/Orang Tua'')])]"

text \<open>
  \<open>guruUsers.forEach(guru => AuthService.users[guru.username] = {...})\<close>: the index as
  far as it got, and the exception that stopped it, if one did (a user name that cannot
  be converted to a property key). An assignment to \<open>__proto__\<close> adds no property: it
  makes the entry the prototype of the index, which the binding of that name records. A
  Symbol as user name would add a symbol-keyed property, which the index does not show.
\<close>

fun add_guru_users :: "obj \<Rightarrow> obj list \<Rightarrow> js_error option \<times> obj" where
  "add_guru_users us [] = (None, us)"
| "add_guru_users us (guru # rest) =
     (case get_own guru ''username'' of
        JSym i \<Rightarrow> add_guru_users us rest
      | username \<Rightarrow>
          (case to_string username of
             Inl err \<Rightarrow> (Some err, us)
           | Inr key \<Rightarrow>
               add_guru_users
                 (AList.update key
                    (JObj [(''password'', get_own guru ''password''),
                           (''role'', js_or (get_own guru ''role'') (JStr ''guru'')),
                           (''name'', get_own guru ''title''),
                           (''nip'', get_own guru ''nip''),
                           (''mapel'', get_own guru ''mapel'')]) us)
                 rest))"

definition updateUsersFromData :: "obj \<Rightarrow> obj list \<Rightarrow> js_error option \<times> obj" where
  "updateUsersFromData us data =
     add_guru_users (assign us defaultUsers)
       (filter (\<lambda>d. strict_eq (get_own d ''type'') (JStr ''guru'')
                    \<and> truthy (get_own d ''username'') \<and> truthy (get_own d ''password'')) data)"

text \<open>
  \<open>UIService.renderCurrentPage()\<close>, as far as the store is concerned: the page on display
  calls \<open>getFilteredData(type)\<close> for its record types.
\<close>

fun renderCurrentPage :: "env \<Rightarrow> store \<Rightarrow> string list \<Rightarrow> js_error option \<times> store" where
  "renderCurrentPage e s [] = (None, s)"
| "renderCurrentPage e s (ty # tys) =
     (case getFilteredData e s ty [] of
        (Inl err, s') \<Rightarrow> (Some err, s')
      | (Inr shown, s') \<Rightarrow> renderCurrentPage e s' tys)"

definition handleDataChange :: "env \<Rightarrow> store \<Rightarrow> obj list \<Rightarrow> js_error option \<times> store" where
  "handleDataChange e s data =
     (case updateUsersFromData (users s) data of
        (Some err, us) \<Rightarrow> (Some err, s\<lparr>allData := data, users := us\<rparr>)
      | (None, us) \<Rightarrow>
          let s' = invalidateCache (s\<lparr>allData := data, users := us\<rparr>) in
          if currentUser e \<noteq> None then renderCurrentPage e s' (page_queries e)
          else (None, s'))"

section \<open>Specification vocabulary\<close>

text \<open>
  The notions the specification uses, written down from its words; the theorems below
  compare them with the code.
\<close>

subsection \<open>Validation\<close>

text \<open>
  The ten record types, and the required fields of each, which are the lists the validators
  hold.
\<close>

definition record_types :: "string list" where
  "record_types =
     [''guru'', ''siswa'', ''kelas'', ''intra'', ''jurnal'', ''absensi'', ''nilai'', ''perilaku'',
      ''bk_absensi'', ''bk_pelanggaran'']"

definition required_fields :: "string \<Rightarrow> string list" where
  "required_fields ty =
     (if ty = ''guru'' then guru_required
      else if ty = ''siswa'' then siswa_required
      else if ty = ''kelas'' then kelas_required
      else if ty = ''intra'' then intra_required
      else if ty = ''jurnal'' then jurnal_required
      else if ty = ''absensi'' then absensi_required
      else if ty = ''nilai'' then nilai_required
      else if ty = ''perilaku'' then perilaku_required
      else if ty = ''bk_absensi'' then bk_absensi_required
      else if ty = ''bk_pelanggaran'' then bk_pelanggaran_required
      else [])"

text \<open>The first required field, in the order of the list, that a field set lacks.\<close>

definition first_missing :: "string list \<Rightarrow> obj \<Rightarrow> string option" where
  "first_missing required fs = find (\<lambda>field. \<not> truthy (get_own fs field)) required"

text \<open>
  The password policy as an ordered list of checks, each with the message it fails with,
  and the message of the first check a password fails.
\<close>

definition password_checks :: "nat \<Rightarrow> ((string \<Rightarrow> bool) \<times> string) list" where
  "password_checks n =
     [(\<lambda>p. n \<le> length p, ''Password minimal '' @ show_nat n @ '' karakter''),
      (list_ex is_lower, ''Password harus mengandung huruf kecil''),
      (list_ex is_upper, ''Password harus mengandung huruf besar''),
      (list_ex is_digit, ''Password harus mengandung angka'')]"

definition first_failure :: "((string \<Rightarrow> bool) \<times> string) list \<Rightarrow> string \<Rightarrow> string option" where
  "first_failure checks p = map_option snd (find (\<lambda>check. \<not> fst check p) checks)"

text \<open>
  The values a validator converts to a string or a number all convert: a teacher's
  registration number, password and the password's \<open>length\<close>, and the user name
  unless it is a Symbol (which is a property key as it is); a student's national number; the
  two times of a journal entry; the score of a grade. The other validators convert nothing.
\<close>

definition conversions_succeed :: "string \<Rightarrow> jsval \<Rightarrow> bool" where
  "conversions_succeed ty data =
     (if ty = ''guru'' then
        convertible (own_prop data ''nip'')
        \<and> convertible (own_prop data ''password'')
        \<and> convertible (own_prop (own_prop data ''password'') ''length'')
        \<and> (case own_prop data ''username'' of JSym i \<Rightarrow> True | other \<Rightarrow> convertible other)
      else if ty = ''siswa'' then convertible (own_prop data ''nisn'')
      else if ty = ''jurnal'' then
        convertible (own_prop data ''waktu_mulai'') \<and> convertible (own_prop data ''waktu_selesai'')
      else if ty = ''nilai'' then convertible (own_prop data ''nilai'')
      else True)"

subsection \<open>Query and cache\<close>

text \<open>
  The effective timestamp of the specification: \<open>updatedAt\<close>, falling back to
  \<open>createdAt\<close> and then \<open>date\<close>.
\<close>

definition spec_effective_time :: "env \<Rightarrow> obj \<Rightarrow> int" where
  "spec_effective_time e d =
     (case time_value (date_parse e)
             (js_or (get_own d ''updatedAt'') (js_or (get_own d ''createdAt'') (get_own d ''date'')))
      of Inr (Some t) \<Rightarrow> t | _ \<Rightarrow> 0)"

text \<open>Sorted descending by a time.\<close>

definition newest_first :: "(obj \<Rightarrow> int) \<Rightarrow> obj list \<Rightarrow> bool" where
  "newest_first time xs = sorted_wrt (\<lambda>a b. time a \<ge> time b) xs"

text \<open>
  A cache entry that the refresh following a resynchronisation made: stamped with the time
  of the resynchronisation and holding what the unfiltered query of one of the page's record
  types computes from the collection of the store.
\<close>

definition computed_on_resync :: "env \<Rightarrow> store \<Rightarrow> string \<Rightarrow> cache_entry \<Rightarrow> bool" where
  "computed_on_resync e s key c =
     (entry_timestamp c = clock e
      \<and> (\<exists>ty \<in> set (page_queries e).
             key = cache_key ty []
             \<and> sort_newest_first (date_parse e) (matching e s ty []) = Inr (entry_data c)))"

subsection \<open>Sample data\<close>

definition sample_nilai :: obj where
  "sample_nilai =
     [(''student_name'', JStr ''A''), (''class'', JStr ''10A''), (''mata_pelajaran'', JStr ''Math''),
      (''jenis_penilaian'', JStr ''Quiz''), (''nilai'', JNum 85), (''date'', JStr ''2024-05-01'')]"

text \<open>
  \<open>Date.parse\<close> at the dates the examples use, a backend that accepts and echoes what
  it is sent, one that reports failure, an environment for a given identity, and a store
  holding one grade entered by the teacher \<open>Guru Matematika\<close> and not yet approved.
\<close>

definition iso_dates :: "string \<Rightarrow> int option" where
  "iso_dates str =
     (if str = ''2024-01-01'' then Some 1704067200000
      else if str = ''2024-02-01'' then Some 1706745600000
      else if str = ''2024-03-01'' then Some 1709251200000
      else if str = ''2024-05-01'' then Some 1714521600000
      else if str = ''2024-06-01'' then Some 1717200000000
      else None)"

definition echo_backend :: backend where
  "echo_backend =
     \<lparr>sdk_create = (\<lambda>r. \<lparr>isOk = True, reply_data = JObj r\<rparr>),
      sdk_update = (\<lambda>r. \<lparr>isOk = True, reply_data = JObj r\<rparr>),
      sdk_delete = (\<lambda>r. \<lparr>isOk = True, reply_data = JUndef\<rparr>)\<rparr>"

definition failing_backend :: backend where
  "failing_backend =
     \<lparr>sdk_create = (\<lambda>r. \<lparr>isOk = False, reply_data = JUndef\<rparr>),
      sdk_update = (\<lambda>r. \<lparr>isOk = False, reply_data = JUndef\<rparr>),
      sdk_delete = (\<lambda>r. \<lparr>isOk = False, reply_data = JUndef\<rparr>)\<rparr>"

definition sample_env :: "string \<Rightarrow> string \<Rightarrow> backend \<Rightarrow> env" where
  "sample_env r n b =
     \<lparr>cfg = default_config, currentUser = Some \<lparr>role = r, name = JStr n\<rparr>,
      clock = 1717200000000, clock_iso = ''2024-06-01T00:00:00.000Z'', date_parse = iso_dates,
      dataSdk = Some b, page_queries = []\<rparr>"

definition stored_nilai :: obj where
  "stored_nilai =
     [(''type'', JStr ''nilai''), (''student_name'', JStr ''A''), (''class'', JStr ''10A''),
      (''mata_pelajaran'', JStr ''Math''), (''jenis_penilaian'', JStr ''Quiz''), (''nilai'', JNum 85),
      (''date'', JStr ''2024-05-01''), (''author'', JStr ''Guru Matematika''),
      (''createdAt'', JStr ''2024-05-01''), (''approved'', JBool False), (''__backendId'', JStr ''n1'')]"

definition sample_store :: store where
  "sample_store = \<lparr>allData = [stored_nilai], cache = Map.empty, users = defaultUsers\<rparr>"

text \<open>
  A grade created in January and edited in March beside one created in February and never
  edited; three lesson plans dated January, March and February; the administrator on the
  lesson-plan page, whose refresh queries \<open>intra\<close>.
\<close>

definition edited_old :: obj where
  "edited_old =
     [(''type'', JStr ''nilai''), (''createdAt'', JStr ''2024-01-01''),
      (''updatedAt'', JStr ''2024-03-01'')]"

definition untouched_new :: obj where
  "untouched_new = [(''type'', JStr ''nilai''), (''createdAt'', JStr ''2024-02-01'')]"

definition edited_store :: store where
  "edited_store = \<lparr>allData = [edited_old, untouched_new], cache = Map.empty, users = defaultUsers\<rparr>"

definition three_dated :: "obj list" where
  "three_dated =
     [[(''type'', JStr ''intra''), (''createdAt'', JStr ''2024-01-01'')],
      [(''type'', JStr ''intra''), (''createdAt'', JStr ''2024-03-01'')],
      [(''type'', JStr ''intra''), (''date'', JStr ''2024-02-01'')]]"

definition dated_store :: store where
  "dated_store = \<lparr>allData = three_dated, cache = Map.empty, users = defaultUsers\<rparr>"

definition intra_page_env :: env where
  "intra_page_env = (sample_env ''admin'' ''Administrator'' echo_backend)\<lparr>page_queries := [''intra'']\<rparr>"

section \<open>Properties of validation\<close>

lemma js_lt_nums: "js_lt (JNum a) (JNum b) = Inr (a < b)"
  by (simp add: js_lt_def is_less_than_def bind_res_def)

lemma check_required_obj:
  "check_required required (JObj fs) = Inr (first_missing required fs)"
  by (induction required) (simp_all add: first_missing_def)

lemma required_then_obj:
  "required_then required (JObj fs) rest =
     (case first_missing required fs of Some field \<Rightarrow> Inr (missing_field field) | None \<Rightarrow> rest)"
  by (simp add: required_then_def check_required_obj)

lemma validateData_guru:
  "validateData c us ''guru'' data
     = required_then (required_fields ''guru'') data
        (bind_res (regex_test (exactly_digits 18) (own_prop data ''nip'')) (\<lambda>nip_ok.
           if \<not> nip_ok then Inr (Verdict False (Some ''NIP harus 18 digit''))
           else
         bind_res (validatePassword c (own_prop data ''password'')) (\<lambda>passwordValidation.
           if \<not> is_valid passwordValidation then Inr passwordValidation
           else
         bind_res (username_taken us (own_prop data ''username'')) (\<lambda>taken.
           if taken then Inr (Verdict False (Some ''Username sudah digunakan''))
           else Inr (Verdict True None)))))"
  by (simp add: validateData_def required_fields_def validateGuruData_def)

lemma validateData_siswa:
  "validateData c us ''siswa'' data
     = required_then (required_fields ''siswa'') data
        (bind_res (regex_test (exactly_digits 10) (own_prop data ''nisn'')) (\<lambda>nisn_ok.
           if \<not> nisn_ok then Inr (Verdict False (Some ''NISN harus 10 digit''))
           else if \<not> js_includes [''L'', ''P''] (own_prop data ''jenis_kelamin'')
           then Inr (Verdict False (Some ''Jenis kelamin harus L atau P''))
           else Inr (Verdict True None)))"
  by (simp add: validateData_def required_fields_def validateSiswaData_def)

lemma validateData_kelas:
  "validateData c us ''kelas'' data
     = required_then (required_fields ''kelas'') data
        (if \<not> js_includes [''X'', ''XI'', ''XII''] (own_prop data ''tingkat'')
         then Inr (Verdict False (Some ''Tingkat harus X, XI, atau XII''))
         else Inr (Verdict True None))"
  by (simp add: validateData_def required_fields_def validateKelasData_def)

lemma validateData_intra:
  "validateData c us ''intra'' data
     = required_then (required_fields ''intra'') data (Inr (Verdict True None))"
  by (simp add: validateData_def required_fields_def validateIntraData_def)

lemma validateData_jurnal:
  "validateData c us ''jurnal'' data
     = required_then (required_fields ''jurnal'') data
        (if truthy (own_prop data ''waktu_mulai'') \<and> truthy (own_prop data ''waktu_selesai'') then
           bind_res (js_ge (own_prop data ''waktu_mulai'') (own_prop data ''waktu_selesai'')) (\<lambda>ge.
             if ge then Inr (Verdict False (Some ''Waktu mulai harus sebelum waktu selesai''))
             else Inr (Verdict True None))
         else Inr (Verdict True None))"
  by (simp add: validateData_def required_fields_def validateJurnalData_def)

lemma validateData_absensi:
  "validateData c us ''absensi'' data
     = required_then (required_fields ''absensi'') data
        (if \<not> js_includes [''Hadir'', ''Sakit'', ''Izin'', ''Alpha''] (own_prop data ''status'')
         then Inr (Verdict False (Some ''Status tidak valid''))
         else Inr (Verdict True None))"
  by (simp add: validateData_def required_fields_def validateAbsensiData_def)

lemma validateData_nilai:
  "validateData c us ''nilai'' data
     = required_then (required_fields ''nilai'') data
        (bind_res (parseFloat (own_prop data ''nilai'')) (\<lambda>nilai.
           if nilai = NumNaN \<or> num_less nilai (NumFin 0) = Some True
              \<or> num_less (NumFin 100) nilai = Some True
           then Inr (Verdict False (Some ''Nilai harus antara 0 dan 100''))
           else Inr (Verdict True None)))"
  by (simp add: validateData_def required_fields_def validateNilaiData_def)

lemma validateData_perilaku:
  "validateData c us ''perilaku'' data
     = required_then (required_fields ''perilaku'') data
        (if \<not> js_includes [''Positif'', ''Negatif'', ''Netral''] (own_prop data ''jenis_perilaku'')
         then Inr (Verdict False (Some ''Jenis perilaku tidak valid''))
         else Inr (Verdict True None))"
  by (simp add: validateData_def required_fields_def validatePerilakuData_def)

lemma validateData_bk_absensi:
  "validateData c us ''bk_absensi'' data
     = required_then (required_fields ''bk_absensi'') data
        (if \<not> js_includes [''Hadir'', ''Sakit'', ''Izin'', ''Alpha'', ''Terlambat'']
                 (own_prop data ''status'')
         then Inr (Verdict False (Some ''Status tidak valid''))
         else Inr (Verdict True None))"
  by (simp add: validateData_def required_fields_def validateBKAbsensiData_def)

lemma validateData_bk_pelanggaran:
  "validateData c us ''bk_pelanggaran'' data
     = required_then (required_fields ''bk_pelanggaran'') data
        (if \<not> js_includes [''Ringan'', ''Sedang'', ''Berat''] (own_prop data ''kategori_pelanggaran'')
         then Inr (Verdict False (Some ''Kategori pelanggaran tidak valid''))
         else Inr (Verdict True None))"
  by (simp add: validateData_def required_fields_def validateBKPelanggaranData_def)

lemma record_types_cases:
  assumes "ty \<in> set record_types"
  shows "ty = ''guru'' \<or> ty = ''siswa'' \<or> ty = ''kelas'' \<or> ty = ''intra'' \<or> ty = ''jurnal''
       \<or> ty = ''absensi'' \<or> ty = ''nilai'' \<or> ty = ''perilaku'' \<or> ty = ''bk_absensi''
       \<or> ty = ''bk_pelanggaran''"
  using assms unfolding record_types_def by simp

lemma validateData_required_then:
  assumes "ty \<in> set record_types"
  shows "\<exists>rest. validateData c us ty data = required_then (required_fields ty) data rest"
  using record_types_cases [OF assms]
  by (elim disjE)
    (blast intro: validateData_guru validateData_siswa validateData_kelas validateData_intra
      validateData_jurnal validateData_absensi validateData_nilai validateData_perilaku
      validateData_bk_absensi validateData_bk_pelanggaran)+

lemma get_own_delete:
  "get_own (AList.delete k fs) g = (if g = k then JUndef else get_own fs g)"
  by (simp add: get_own_def delete_conv)

lemma first_missing_Some:
  "first_missing required fs = Some field \<Longrightarrow>
     field \<in> set required \<and> \<not> truthy (get_own fs field)"
  by (auto simp: first_missing_def find_Some_iff)

lemma first_missing_None:
  "first_missing required fs = None \<longleftrightarrow> (\<forall>field \<in> set required. truthy (get_own fs field))"
  by (auto simp: first_missing_def find_None_iff)

lemma find_the_only:
  assumes "x \<in> set xs" and "P x" and "\<forall>y \<in> set xs. y \<noteq> x \<longrightarrow> \<not> P y"
  shows "find P xs = Some x"
  using assms by (induction xs) auto

lemma first_missing_after_delete:
  assumes "field \<in> set required" and "\<forall>g \<in> set required. truthy (get_own fs g)"
  shows "first_missing required (AList.delete field fs) = Some field"
  unfolding first_missing_def
  by (rule find_the_only) (use assms in \<open>simp_all add: get_own_delete\<close>)

lemma sample_nilai_valid:
  "validateData default_config [] ''nilai'' (JObj sample_nilai) = Inr (Verdict True None)"
  by code_simp

text \<open>
  C7. For each of the ten record types the required-field loop runs before the type's own
  checks: a field set lacking a required field is rejected with the message
  \<open>field wajib diisi\<close> for the first required field it lacks, never with the message of a
  later check; and removing any one required field from a field set that validates makes
  validation fail with the message naming that field.
\<close>

theorem missing_required_field_reported_first:
  assumes "ty \<in> set record_types"
  shows "(first_missing (required_fields ty) fs = Some field \<longrightarrow>
            validateData c us ty (JObj fs) = Inr (Verdict False (Some (field @ '' wajib diisi''))))
       \<and> (validateData c us ty (JObj fs) = Inr (Verdict True m)
            \<and> field \<in> set (required_fields ty) \<longrightarrow>
            validateData c us ty (JObj (AList.delete field fs))
              = Inr (Verdict False (Some (field @ '' wajib diisi''))))"
proof -
  obtain rest where v:
    "validateData c us ty (JObj fs) = required_then (required_fields ty) (JObj fs) rest"
    using validateData_required_then [OF assms] by blast
  obtain rest' where v':
    "validateData c us ty (JObj (AList.delete field fs))
       = required_then (required_fields ty) (JObj (AList.delete field fs)) rest'"
    using validateData_required_then [OF assms] by blast
  have first: "first_missing (required_fields ty) fs = Some field \<longrightarrow>
      validateData c us ty (JObj fs) = Inr (Verdict False (Some (field @ '' wajib diisi'')))"
    by (simp add: v required_then_obj missing_field_def)
  have second: "validateData c us ty (JObj (AList.delete field fs))
      = Inr (Verdict False (Some (field @ '' wajib diisi'')))"
    if ok: "validateData c us ty (JObj fs) = Inr (Verdict True m)"
      and req: "field \<in> set (required_fields ty)"
  proof -
    have "first_missing (required_fields ty) fs = None"
      using ok by (cases "first_missing (required_fields ty) fs")
        (simp_all add: v required_then_obj missing_field_def)
    then have "\<forall>g \<in> set (required_fields ty). truthy (get_own fs g)"
      by (simp add: first_missing_None)
    then have "first_missing (required_fields ty) (AList.delete field fs) = Some field"
      using req by (rule first_missing_after_delete [rotated])
    then show ?thesis
      by (simp add: v' required_then_obj missing_field_def)
  qed
  from first second show ?thesis by blast
qed

text \<open>
  The sample grade validates; without its score it is rejected for the score, and a grade
  that lacks the class and has a score out of range is rejected for the class.
\<close>

theorem missing_required_field_reported_first_witness:
  "''nilai'' \<in> set record_types
   \<and> validateData default_config [] ''nilai'' (JObj sample_nilai) = Inr (Verdict True None)
   \<and> validateData default_config [] ''nilai'' (JObj (AList.delete ''nilai'' sample_nilai))
       = Inr (Verdict False (Some ''nilai wajib diisi''))
   \<and> first_missing (required_fields ''nilai'')
        [(''student_name'', JStr ''A''), (''nilai'', JNum 105), (''date'', JStr ''2024-05-01'')]
       = Some ''class''
   \<and> validateData default_config [] ''nilai''
        (JObj [(''student_name'', JStr ''A''), (''nilai'', JNum 105), (''date'', JStr ''2024-05-01'')])
       = Inr (Verdict False (Some ''class wajib diisi''))"
proof -
  have ty: "''nilai'' \<in> set record_types"
    by (simp add: record_types_def)
  have req: "''nilai'' \<in> set (required_fields ''nilai'')"
    by (simp add: required_fields_def nilai_required_def)
  have miss: "first_missing (required_fields ''nilai'')
      [(''student_name'', JStr ''A''), (''nilai'', JNum 105), (''date'', JStr ''2024-05-01'')]
      = Some ''class''"
    by (simp add: first_missing_def required_fields_def nilai_required_def get_own_def)
  have removed: "validateData default_config [] ''nilai'' (JObj (AList.delete ''nilai'' sample_nilai))
      = Inr (Verdict False (Some ''nilai wajib diisi''))"
    using missing_required_field_reported_first
      [OF ty, of sample_nilai "''nilai''" default_config "[]" None]
      sample_nilai_valid req
    by simp
  have first: "validateData default_config [] ''nilai''
       (JObj [(''student_name'', JStr ''A''), (''nilai'', JNum 105), (''date'', JStr ''2024-05-01'')])
      = Inr (Verdict False (Some ''class wajib diisi''))"
    using missing_required_field_reported_first
      [OF ty, of "[(''student_name'', JStr ''A''), (''nilai'', JNum 105), (''date'', JStr ''2024-05-01'')]"
        "''class''" default_config "[]"]
      miss
    by simp
  from ty sample_nilai_valid removed miss first show ?thesis by blast
qed

text \<open>
  C8. Password strength is decided by four checks in a fixed order: the configured minimum
  length, a lowercase letter, an uppercase letter, a digit. The message is that of the
  first check the password fails, and a password that passes all four is valid.
\<close>

theorem validatePassword_first_failure:
  "validatePassword c (JStr p) =
     Inr (case first_failure (password_checks (password_min_length c)) p of
            Some m \<Rightarrow> Verdict False (Some m)
          | None \<Rightarrow> Verdict True (Some ''Password kuat''))"
  by (simp add: validatePassword_def first_failure_def password_checks_def js_lt_nums
      regex_test_def bind_res_def not_le)

text \<open>
  \<open>abc\<close> is too short and has neither an uppercase letter nor a digit: the length
  message wins. \<open>Abcde1\<close> passes.
\<close>

theorem validatePassword_first_failure_witness:
  "validatePassword default_config (JStr ''abc'')
     = Inr (Verdict False (Some ''Password minimal 6 karakter''))
   \<and> validatePassword default_config (JStr ''abcdefg'')
     = Inr (Verdict False (Some ''Password harus mengandung huruf besar''))
   \<and> validatePassword default_config (JStr ''Abcde1'') = Inr (Verdict True (Some ''Password kuat''))"
proof -
  have six: "show_nat 6 = ''6''"
    by (simp add: show_nat.simps)
  have a: "first_failure (password_checks (password_min_length default_config)) ''abc''
      = Some ''Password minimal 6 karakter''"
    by (simp add: first_failure_def password_checks_def default_config_def six)
  have b: "first_failure (password_checks (password_min_length default_config)) ''abcdefg''
      = Some ''Password harus mengandung huruf besar''"
    by (simp add: first_failure_def password_checks_def default_config_def is_lower_def
        is_upper_def)
  have c: "first_failure (password_checks (password_min_length default_config)) ''Abcde1'' = None"
    by (simp add: first_failure_def password_checks_def default_config_def is_lower_def
        is_upper_def is_digit_def)
  show ?thesis
    using validatePassword_first_failure [of default_config "''abc''"]
      validatePassword_first_failure [of default_config "''abcdefg''"]
      validatePassword_first_failure [of default_config "''Abcde1''"]
    by (simp add: a b c)
qed

lemma first_missing_delete_falsy:
  assumes "\<not> truthy (get_own fs field)"
  shows "first_missing required (AList.delete field fs) = first_missing required fs"
proof -
  have "truthy (get_own (AList.delete field fs) g) = truthy (get_own fs g)" for g
    using assms by (simp add: get_own_delete)
  then show ?thesis
    by (simp add: first_missing_def)
qed

lemma first_missing_takeWhile:
  assumes "field \<in> set required" and "\<not> truthy (get_own fs field)"
    and "\<forall>g \<in> set (takeWhile (\<lambda>g. g \<noteq> field) required). truthy (get_own fs g)"
  shows "first_missing required fs = Some field"
  using assms unfolding first_missing_def
  by (induction required) auto

lemma falsy_values:
  "\<not> truthy v \<longleftrightarrow> v \<in> {JUndef, JNull, JBool False, JNum 0, JNaN, JStr []}"
  by (cases v) auto

text \<open>
  C10. A required field whose value is falsy (\<open>false\<close>, the number \<open>0\<close>, the
  empty string, \<open>null\<close>, \<open>NaN\<close>) is treated as missing by every validator:
  validation gives what it gives with the field removed, which is a missing-field message,
  and that message names the field when the required fields listed before it are present.
  For a type without a validator of its own the same holds of \<open>title\<close> and
  \<open>content\<close>, with the one message the fallback has.
\<close>

theorem falsy_required_value_is_missing:
  "(ty \<in> set record_types \<and> field \<in> set (required_fields ty)
      \<and> get_own fs field \<in> {JBool False, JNum 0, JStr [], JNull, JNaN} \<longrightarrow>
      validateData c us ty (JObj fs) = validateData c us ty (JObj (AList.delete field fs))
      \<and> (\<exists>g. validateData c us ty (JObj fs) = Inr (Verdict False (Some (g @ '' wajib diisi''))))
      \<and> ((\<forall>g \<in> set (takeWhile (\<lambda>g. g \<noteq> field) (required_fields ty)). truthy (get_own fs g)) \<longrightarrow>
           validateData c us ty (JObj fs) = Inr (Verdict False (Some (field @ '' wajib diisi'')))))
   \<and> (ty \<notin> set record_types \<and> ty \<notin> set object_prototype_names \<and> field \<in> {''title'', ''content''}
        \<and> get_own fs field \<in> {JBool False, JNum 0, JStr [], JNull, JNaN} \<longrightarrow>
        validateData c us ty (JObj fs) = Inr (Verdict False (Some ''Title dan content wajib diisi'')))"
proof -
  have known: "validateData c us ty (JObj fs) = validateData c us ty (JObj (AList.delete field fs))
      \<and> (\<exists>g. validateData c us ty (JObj fs) = Inr (Verdict False (Some (g @ '' wajib diisi''))))
      \<and> ((\<forall>g \<in> set (takeWhile (\<lambda>g. g \<noteq> field) (required_fields ty)). truthy (get_own fs g)) \<longrightarrow>
           validateData c us ty (JObj fs) = Inr (Verdict False (Some (field @ '' wajib diisi''))))"
    if ty: "ty \<in> set record_types" and req: "field \<in> set (required_fields ty)"
      and val: "get_own fs field \<in> {JBool False, JNum 0, JStr [], JNull, JNaN}"
  proof -
    have falsy: "\<not> truthy (get_own fs field)"
      using val by (auto simp: falsy_values)
    obtain rest where v:
      "validateData c us ty (JObj fs) = required_then (required_fields ty) (JObj fs) rest"
      using validateData_required_then [OF ty] by blast
    obtain rest' where v':
      "validateData c us ty (JObj (AList.delete field fs))
         = required_then (required_fields ty) (JObj (AList.delete field fs)) rest'"
      using validateData_required_then [OF ty] by blast
    obtain g where g: "first_missing (required_fields ty) fs = Some g"
      using req falsy by (cases "first_missing (required_fields ty) fs")
        (auto simp: first_missing_None)
    have same: "validateData c us ty (JObj fs) = validateData c us ty (JObj (AList.delete field fs))"
      by (simp add: v v' required_then_obj first_missing_delete_falsy [OF falsy] g)
    have some: "validateData c us ty (JObj fs) = Inr (Verdict False (Some (g @ '' wajib diisi'')))"
      by (simp add: v required_then_obj g missing_field_def)
    have this_one: "validateData c us ty (JObj fs) = Inr (Verdict False (Some (field @ '' wajib diisi'')))"
      if "\<forall>g \<in> set (takeWhile (\<lambda>g. g \<noteq> field) (required_fields ty)). truthy (get_own fs g)"
      using first_missing_takeWhile [OF req falsy that]
      by (simp add: v required_then_obj missing_field_def)
    from same some this_one show ?thesis by blast
  qed
  have unknown: "validateData c us ty (JObj fs) = Inr (Verdict False (Some ''Title dan content wajib diisi''))"
    if ty: "ty \<notin> set record_types" "ty \<notin> set object_prototype_names"
      and f: "field \<in> {''title'', ''content''}"
      and val: "get_own fs field \<in> {JBool False, JNum 0, JStr [], JNull, JNaN}"
  proof -
    have falsy: "\<not> truthy (get_own fs field)"
      using val by (auto simp: falsy_values)
    have "validateData c us ty (JObj fs) = basic_validation (JObj fs)"
      using ty by (simp add: validateData_def record_types_def)
    then show ?thesis
      using f falsy by (auto simp: basic_validation_def bind_res_def)
  qed
  from known unknown show ?thesis by blast
qed

text \<open>
  A grade with the score \<open>0\<close>, all other required fields present, is rejected with
  \<open>nilai wajib diisi\<close>; a note of an unknown type with an empty content is rejected
  by the fallback.
\<close>

theorem falsy_required_value_is_missing_witness:
  "validateData default_config [] ''nilai''
       (JObj [(''student_name'', JStr ''A''), (''class'', JStr ''10A''), (''mata_pelajaran'', JStr ''Math''),
              (''jenis_penilaian'', JStr ''Quiz''), (''nilai'', JNum 0), (''date'', JStr ''2024-05-01'')])
     = Inr (Verdict False (Some ''nilai wajib diisi''))
   \<and> validateData default_config [] ''catatan'' (JObj [(''title'', JStr ''T''), (''content'', JStr [])])
     = Inr (Verdict False (Some ''Title dan content wajib diisi''))"
proof -
  let ?fs = "[(''student_name'', JStr ''A''), (''class'', JStr ''10A''), (''mata_pelajaran'', JStr ''Math''),
              (''jenis_penilaian'', JStr ''Quiz''), (''nilai'', JNum 0), (''date'', JStr ''2024-05-01'')]"
  have ty: "''nilai'' \<in> set record_types"
    by (simp add: record_types_def)
  have req: "''nilai'' \<in> set (required_fields ''nilai'')"
    by (simp add: required_fields_def nilai_required_def)
  have zero: "get_own ?fs ''nilai'' \<in> {JBool False, JNum 0, JStr [], JNull, JNaN}"
    by (simp add: get_own_def)
  have before: "\<forall>g \<in> set (takeWhile (\<lambda>g. g \<noteq> ''nilai'') (required_fields ''nilai'')). truthy (get_own ?fs g)"
    by (simp add: required_fields_def nilai_required_def get_own_def)
  have "validateData default_config [] ''nilai'' (JObj ?fs)
      = Inr (Verdict False (Some (''nilai'' @ '' wajib diisi'')))"
    using falsy_required_value_is_missing [of "''nilai''" "''nilai''" ?fs default_config "[]"]
      ty req zero before
    by blast
  then have a: "validateData default_config [] ''nilai'' (JObj ?fs)
      = Inr (Verdict False (Some ''nilai wajib diisi''))"
    by simp
  have ty': "''catatan'' \<notin> set record_types" "''catatan'' \<notin> set object_prototype_names"
    by (simp_all add: record_types_def object_prototype_names_def)
  have empty: "get_own [(''title'', JStr ''T''), (''content'', JStr [])] ''content''
      \<in> {JBool False, JNum 0, JStr [], JNull, JNaN}"
    by (simp add: get_own_def)
  have title_or_content: "''content'' \<in> {''title'', ''content''}"
    by simp
  have b: "validateData default_config [] ''catatan'' (JObj [(''title'', JStr ''T''), (''content'', JStr [])])
     = Inr (Verdict False (Some ''Title dan content wajib diisi''))"
    using falsy_required_value_is_missing
      [of "''catatan''" "''content''" "[(''title'', JStr ''T''), (''content'', JStr [])]" default_config "[]"]
      ty' title_or_content empty
    by blast
  from a b show ?thesis by blast
qed

lemma get_prop_present:
  "data \<noteq> JUndef \<Longrightarrow> data \<noteq> JNull \<Longrightarrow> get_prop data k = Inr (own_prop data k)"
  by (cases data) simp_all

lemma check_required_present:
  assumes "data \<noteq> JUndef" and "data \<noteq> JNull"
  shows "check_required required data
           = Inr (find (\<lambda>field. \<not> truthy (own_prop data field)) required)"
  by (induction required) (simp_all add: get_prop_present [OF assms])

lemma required_then_verdict:
  assumes "data \<noteq> JUndef" and "data \<noteq> JNull"
    and "(\<forall>field \<in> set required. truthy (own_prop data field)) \<Longrightarrow> \<exists>v m. rest = Inr (Verdict v m)"
  shows "\<exists>v m. required_then required data rest = Inr (Verdict v m)"
proof (cases "find (\<lambda>field. \<not> truthy (own_prop data field)) required")
  case None
  then have "\<forall>field \<in> set required. truthy (own_prop data field)"
    by (simp add: find_None_iff)
  then show ?thesis
    using assms(3) None
    by (simp add: required_then_def check_required_present [OF assms(1,2)])
next
  case (Some field)
  then show ?thesis
    by (auto simp: required_then_def check_required_present [OF assms(1,2)] missing_field_def)
qed

lemma required_then_absent:
  assumes "data = JUndef \<or> data = JNull" and "required \<noteq> []"
  shows "required_then required data rest = Inl TypeError"
  using assms by (cases required) (auto simp: required_then_def)

lemma convertible_iff:
  "convertible v \<longleftrightarrow>
     (case v of JSym i \<Rightarrow> False | JObj fs \<Rightarrow> ''toString'' \<notin> fst ` set fs | _ \<Rightarrow> True)"
  by (cases v) (simp_all add: convertible_def)

lemma to_string_convertible: "convertible v \<Longrightarrow> \<exists>str. to_string v = Inr str"
  by (cases "to_string v") (simp_all add: convertible_def)

lemma to_number_convertible: "convertible v \<Longrightarrow> \<exists>n. to_number v = Inr n"
  by (cases v) (auto simp: convertible_def bind_res_def split: if_splits)

lemma to_primitive_convertible:
  "convertible v \<Longrightarrow> \<exists>p. to_primitive v = Inr p \<and> convertible p"
  by (cases v) (auto simp: convertible_def bind_res_def split: if_splits)

lemma regex_test_convertible: "convertible v \<Longrightarrow> \<exists>b. regex_test re v = Inr b"
  using to_string_convertible [of v] by (auto simp: regex_test_def bind_res_def)

lemma is_less_than_convertible:
  assumes "convertible x" and "convertible y"
  shows "\<exists>r. is_less_than x y = Inr r"
proof -
  obtain px where px: "to_primitive x = Inr px" "convertible px"
    using to_primitive_convertible [OF assms(1)] by blast
  obtain py where py: "to_primitive y = Inr py" "convertible py"
    using to_primitive_convertible [OF assms(2)] by blast
  obtain nx where nx: "to_number px = Inr nx"
    using to_number_convertible [OF px(2)] by blast
  obtain ny where ny: "to_number py = Inr ny"
    using to_number_convertible [OF py(2)] by blast
  have "\<exists>r. (case (px, py) of
               (JStr a, JStr b) \<Rightarrow> Inr (Some (str_less a b))
             | _ \<Rightarrow> bind_res (to_number px) (\<lambda>nx.
                   bind_res (to_number py) (\<lambda>ny. Inr (num_less nx ny)))) = Inr r"
    using nx ny by (cases px; cases py) (auto simp: bind_res_def split: if_splits)
  then show ?thesis
    unfolding is_less_than_def px(1) py(1) by (simp add: bind_res_def)
qed

lemma js_lt_convertible: "convertible x \<Longrightarrow> convertible y \<Longrightarrow> \<exists>b. js_lt x y = Inr b"
  using is_less_than_convertible [of x y] by (auto simp: js_lt_def bind_res_def)

lemma js_ge_convertible: "convertible x \<Longrightarrow> convertible y \<Longrightarrow> \<exists>b. js_ge x y = Inr b"
  using is_less_than_convertible [of x y] by (auto simp: js_ge_def bind_res_def)

lemma parseFloat_convertible: "convertible v \<Longrightarrow> \<exists>n. parseFloat v = Inr n"
  using to_string_convertible [of v] by (auto simp: parseFloat_def bind_res_def)

lemma username_taken_convertible:
  assumes "case nm of JSym i \<Rightarrow> True | other \<Rightarrow> convertible other"
  shows "\<exists>b. username_taken us nm = Inr b"
proof (cases nm)
  case (JSym i)
  then show ?thesis by (auto simp: username_taken_def)
next
  case JUndef
  then show ?thesis by (simp add: username_taken_def bind_res_def)
next
  case JNull
  then show ?thesis by (simp add: username_taken_def bind_res_def)
next
  case (JBool b)
  then show ?thesis by (simp add: username_taken_def bind_res_def)
next
  case (JNum n)
  then show ?thesis by (simp add: username_taken_def bind_res_def)
next
  case JNaN
  then show ?thesis by (simp add: username_taken_def bind_res_def)
next
  case (JStr str)
  then show ?thesis by (simp add: username_taken_def bind_res_def)
next
  case (JObj fs)
  then have "convertible (JObj fs)"
    using assms by simp
  then obtain key where "to_string (JObj fs) = Inr key"
    using to_string_convertible by blast
  then show ?thesis
    using JObj by (simp add: username_taken_def bind_res_def)
qed

lemma validatePassword_convertible:
  assumes "convertible pw" and "truthy pw" and "convertible (own_prop pw ''length'')"
  shows "\<exists>v m. validatePassword c pw = Inr (Verdict v m)"
proof -
  have present: "pw \<noteq> JUndef" "pw \<noteq> JNull"
    using assms(2) by auto
  have "convertible (JNum (int (password_min_length c)))"
    by (simp add: convertible_def)
  then obtain short where short:
    "js_lt (own_prop pw ''length'') (JNum (int (password_min_length c))) = Inr short"
    using js_lt_convertible [OF assms(3)] by blast
  obtain l where l: "regex_test (list_ex is_lower) pw = Inr l"
    using regex_test_convertible [OF assms(1)] by blast
  obtain u where u: "regex_test (list_ex is_upper) pw = Inr u"
    using regex_test_convertible [OF assms(1)] by blast
  obtain d where d: "regex_test (list_ex is_digit) pw = Inr d"
    using regex_test_convertible [OF assms(1)] by blast
  show ?thesis
    by (auto simp: validatePassword_def get_prop_present [OF present] short l u d bind_res_def)
qed

lemma validateData_unknown:
  assumes "ty \<notin> set record_types" and "ty \<notin> set object_prototype_names"
  shows "validateData c us ty data = basic_validation data"
  using assms by (simp add: validateData_def record_types_def)

lemma basic_validation_verdict:
  assumes "data \<noteq> JUndef" and "data \<noteq> JNull"
  shows "\<exists>v m. basic_validation data = Inr (Verdict v m)"
  by (auto simp: basic_validation_def get_prop_present [OF assms] bind_res_def)

lemma basic_validation_absent:
  "basic_validation JUndef = Inl TypeError" "basic_validation JNull = Inl TypeError"
  by (simp_all add: basic_validation_def bind_res_def)

lemma required_fields_nonempty:
  assumes "ty \<in> set record_types"
  shows "required_fields ty \<noteq> []"
  using record_types_cases [OF assms]
  by (elim disjE; simp add: required_fields_def guru_required_def siswa_required_def
      kelas_required_def intra_required_def jurnal_required_def absensi_required_def
      nilai_required_def perilaku_required_def bk_absensi_required_def
      bk_pelanggaran_required_def)

lemma known_type_verdict:
  assumes ty: "ty \<in> set record_types"
    and present: "data \<noteq> JUndef" "data \<noteq> JNull"
    and conv: "conversions_succeed ty data"
  shows "\<exists>v m. validateData c us ty data = Inr (Verdict v m)"
proof -
  note rt = required_then_verdict [OF present]
  from record_types_cases [OF ty] show ?thesis
  proof (elim disjE)
    assume t: "ty = ''guru''"
    have nip: "convertible (own_prop data ''nip'')"
      and pw: "convertible (own_prop data ''password'')"
      and len: "convertible (own_prop (own_prop data ''password'') ''length'')"
      and uname: "case own_prop data ''username'' of JSym i \<Rightarrow> True | other \<Rightarrow> convertible other"
      using conv unfolding t by (simp_all add: conversions_succeed_def)
    show ?thesis
      unfolding t validateData_guru
    proof (rule rt)
      assume req: "\<forall>field \<in> set (required_fields ''guru''). truthy (own_prop data field)"
      then have given: "truthy (own_prop data ''password'')"
        by (simp add: required_fields_def guru_required_def)
      obtain n where n: "regex_test (exactly_digits 18) (own_prop data ''nip'') = Inr n"
        using regex_test_convertible [OF nip] by blast
      obtain v m where v: "validatePassword c (own_prop data ''password'') = Inr (Verdict v m)"
        using validatePassword_convertible [OF pw given len] by blast
      obtain b where b: "username_taken us (own_prop data ''username'') = Inr b"
        using username_taken_convertible [OF uname] by blast
      show "\<exists>v m. bind_res (regex_test (exactly_digits 18) (own_prop data ''nip'')) (\<lambda>nip_ok.
           if \<not> nip_ok then Inr (Verdict False (Some ''NIP harus 18 digit''))
           else
         bind_res (validatePassword c (own_prop data ''password'')) (\<lambda>passwordValidation.
           if \<not> is_valid passwordValidation then Inr passwordValidation
           else
         bind_res (username_taken us (own_prop data ''username'')) (\<lambda>taken.
           if taken then Inr (Verdict False (Some ''Username sudah digunakan''))
           else Inr (Verdict True None)))) = Inr (Verdict v m)"
        by (cases v) (auto simp: n v b bind_res_def)
    qed
  next
    assume t: "ty = ''siswa''"
    have "convertible (own_prop data ''nisn'')"
      using conv unfolding t by (simp add: conversions_succeed_def)
    then obtain n where n: "regex_test (exactly_digits 10) (own_prop data ''nisn'') = Inr n"
      using regex_test_convertible by blast
    show ?thesis
      unfolding t validateData_siswa by (rule rt) (auto simp: n bind_res_def)
  next
    assume t: "ty = ''kelas''"
    show ?thesis
      unfolding t validateData_kelas by (rule rt) auto
  next
    assume t: "ty = ''intra''"
    show ?thesis
      unfolding t validateData_intra by (rule rt) auto
  next
    assume t: "ty = ''jurnal''"
    have "convertible (own_prop data ''waktu_mulai'')" "convertible (own_prop data ''waktu_selesai'')"
      using conv unfolding t by (simp_all add: conversions_succeed_def)
    then obtain b where b:
      "js_ge (own_prop data ''waktu_mulai'') (own_prop data ''waktu_selesai'') = Inr b"
      using js_ge_convertible by blast
    show ?thesis
      unfolding t validateData_jurnal by (rule rt) (auto simp: b bind_res_def)
  next
    assume t: "ty = ''absensi''"
    show ?thesis
      unfolding t validateData_absensi by (rule rt) auto
  next
    assume t: "ty = ''nilai''"
    have "convertible (own_prop data ''nilai'')"
      using conv unfolding t by (simp add: conversions_succeed_def)
    then obtain n where n: "parseFloat (own_prop data ''nilai'') = Inr n"
      using parseFloat_convertible by blast
    show ?thesis
      unfolding t validateData_nilai by (rule rt) (auto simp: n bind_res_def)
  next
    assume t: "ty = ''perilaku''"
    show ?thesis
      unfolding t validateData_perilaku by (rule rt) auto
  next
    assume t: "ty = ''bk_absensi''"
    show ?thesis
      unfolding t validateData_bk_absensi by (rule rt) auto
  next
    assume t: "ty = ''bk_pelanggaran''"
    show ?thesis
      unfolding t validateData_bk_pelanggaran by (rule rt) auto
  qed
qed

lemma known_type_absent:
  assumes ty: "ty \<in> set record_types" and absent: "data = JUndef \<or> data = JNull"
  shows "validateData c us ty data = Inl TypeError"
proof -
  obtain rest where "validateData c us ty data = required_then (required_fields ty) data rest"
    using validateData_required_then [OF ty] by blast
  then show ?thesis
    by (simp add: required_then_absent [OF absent required_fields_nonempty [OF ty]])
qed

text \<open>
  C6 (as amended). \<open>validateData\<close> returns a verdict \<open>{valid, message?}\<close> for every
  candidate other than \<open>undefined\<close> and \<open>null\<close> and every type that does not name a
  member of \<open>Object.prototype\<close>, provided the values the type's validator converts to a
  string or a number convert, that is, none of them is a Symbol or an object with an own
  \<open>toString\<close>; on \<open>undefined\<close> and on \<open>null\<close> it throws a \<open>TypeError\<close>.
\<close>

theorem validateData_verdict_unless_conversion_throws:
  "ty \<notin> set object_prototype_names \<longrightarrow>
     (data \<noteq> JUndef \<and> data \<noteq> JNull \<and> conversions_succeed ty data \<longrightarrow>
        (\<exists>v m. validateData c us ty data = Inr (Verdict v m)))
     \<and> validateData c us ty JUndef = Inl TypeError
     \<and> validateData c us ty JNull = Inl TypeError"
proof (cases "ty \<in> set record_types")
  case True
  then show ?thesis
    using known_type_verdict [OF True, of data c us] known_type_absent [OF True, of JUndef c us]
      known_type_absent [OF True, of JNull c us]
    by blast
next
  case False
  show ?thesis
  proof
    assume "ty \<notin> set object_prototype_names"
    then have "validateData c us ty d = basic_validation d" for d
      by (rule validateData_unknown [OF False])
    then show "(data \<noteq> JUndef \<and> data \<noteq> JNull \<and> conversions_succeed ty data \<longrightarrow>
        (\<exists>v m. validateData c us ty data = Inr (Verdict v m)))
     \<and> validateData c us ty JUndef = Inl TypeError
     \<and> validateData c us ty JNull = Inl TypeError"
      using basic_validation_verdict [of data] basic_validation_absent by simp
  qed
qed

text \<open>
  The sample grade gets a verdict, and so does a student whose national number is an
  empty object and whose class is a Symbol; \<open>undefined\<close> in the place of a grade throws.
\<close>

theorem validateData_verdict_unless_conversion_throws_witness:
  "''nilai'' \<notin> set object_prototype_names
   \<and> (\<exists>v m. validateData default_config defaultUsers ''nilai'' (JObj sample_nilai) = Inr (Verdict v m))
   \<and> (\<exists>v m. validateData default_config defaultUsers ''siswa''
         (JObj [(''title'', JStr ''A''), (''nisn'', JObj []), (''jenis_kelamin'', JStr ''L''),
                (''class'', JSym 0)]) = Inr (Verdict v m))
   \<and> validateData default_config defaultUsers ''nilai'' JUndef = Inl TypeError"
proof -
  let ?siswa = "JObj [(''title'', JStr ''A''), (''nisn'', JObj []), (''jenis_kelamin'', JStr ''L''),
                (''class'', JSym 0)]"
  have ty: "''nilai'' \<notin> set object_prototype_names" "''siswa'' \<notin> set object_prototype_names"
    by (simp_all add: object_prototype_names_def)
  have conv: "conversions_succeed ''nilai'' (JObj sample_nilai)"
    by (simp add: conversions_succeed_def convertible_def sample_nilai_def get_own_def show_int_def
        show_nat.simps)
  have conv': "conversions_succeed ''siswa'' ?siswa"
    by (simp add: conversions_succeed_def convertible_def get_own_def)
  have present: "JObj sample_nilai \<noteq> JUndef" "JObj sample_nilai \<noteq> JNull"
    "?siswa \<noteq> JUndef" "?siswa \<noteq> JNull"
    by simp_all
  have a: "\<exists>v m. validateData default_config defaultUsers ''nilai'' (JObj sample_nilai) = Inr (Verdict v m)"
    using validateData_verdict_unless_conversion_throws
      [of "''nilai''" "JObj sample_nilai" default_config defaultUsers]
      ty conv present
    by blast
  have b: "\<exists>v m. validateData default_config defaultUsers ''siswa'' ?siswa = Inr (Verdict v m)"
    using validateData_verdict_unless_conversion_throws
      [of "''siswa''" ?siswa default_config defaultUsers]
      ty conv' present
    by blast
  have c: "validateData default_config defaultUsers ''nilai'' JUndef = Inl TypeError"
    using validateData_verdict_unless_conversion_throws
      [of "''nilai''" "JObj sample_nilai" default_config defaultUsers]
      ty
    by blast
  from ty a b c show ?thesis by blast
qed

text \<open>
  C6 as stated fails: validating a \<open>null\<close> candidate as a grade throws.
\<close>

theorem validateData_null_counterexample:
  "validateData default_config defaultUsers ''nilai'' JNull = Inl TypeError"
  by (simp add: validateData_def validateNilaiData_def required_then_def nilai_required_def)

text \<open>
  The provisos of the amended statement are needed. A type that names an inherited member
  runs that member. A national number that is a Symbol, or an object with an own
  \<open>toString\<close>, cannot be converted for the pattern test; one that is a plain object
  can, and fails the test.
\<close>

lemma validateData_inherited_member_throws:
  "validateData default_config defaultUsers ''valueOf'' (JObj sample_nilai) = Inl TypeError"
  by code_simp

lemma validateData_symbol_field_throws:
  "validateData default_config defaultUsers ''siswa''
     (JObj [(''title'', JStr ''A''), (''nisn'', JSym 0), (''jenis_kelamin'', JStr ''L''),
            (''class'', JStr ''10A'')])
     = Inl TypeError"
  by code_simp

lemma validateData_unconvertible_field_throws:
  "validateData default_config defaultUsers ''siswa''
     (JObj [(''title'', JStr ''A''), (''nisn'', JObj [(''toString'', JNum 1)]),
            (''jenis_kelamin'', JStr ''L''), (''class'', JStr ''10A'')])
     = Inl TypeError"
  by code_simp

lemma validateData_plain_object_field_verdict:
  "validateData default_config defaultUsers ''siswa''
     (JObj [(''title'', JStr ''A''), (''nisn'', JObj []), (''jenis_kelamin'', JStr ''L''),
            (''class'', JStr ''10A'')])
     = Inr (Verdict False (Some ''NISN harus 10 digit''))"
  by code_simp

section \<open>Properties of the record store\<close>

subsection \<open>Mutation gate\<close>

text \<open>
  C4. An identity whose role is not \<open>admin\<close> cannot update or delete a record whose
  author is not its display name: both operations fail with their permission error and
  leave the store as it was, whatever the record's type. Conversely an update or delete of
  an existing record gets past the gate only for a signed-in identity that is \<open>admin\<close>
  or the record's author.
\<close>

theorem mutation_gate:
  "(find_by_id s ident = Some r \<and> currentUser e = Some u \<and> role u \<noteq> ''admin''
      \<and> \<not> strict_eq (get_own r ''author'') (name u) \<longrightarrow>
      updateData e s ident data = (Inl (Error ''Tidak memiliki izin untuk mengupdate data ini''), s)
      \<and> deleteData e s ident = (Inl (Error ''Tidak memiliki izin untuk menghapus data ini''), s))
   \<and> (find_by_id s ident = Some r
        \<and> fst (updateData e s ident data) \<noteq> Inl (Error ''Tidak memiliki izin untuk mengupdate data ini'') \<longrightarrow>
        (\<exists>u. currentUser e = Some u \<and> (role u = ''admin'' \<or> strict_eq (get_own r ''author'') (name u))))
   \<and> (find_by_id s ident = Some r
        \<and> fst (deleteData e s ident) \<noteq> Inl (Error ''Tidak memiliki izin untuk menghapus data ini'') \<longrightarrow>
        (\<exists>u. currentUser e = Some u \<and> (role u = ''admin'' \<or> strict_eq (get_own r ''author'') (name u))))"
  by (auto simp: updateData_def deleteData_def canUpdateData_def canDeleteData_def
      split: option.splits if_splits)

lemma find_sample: "find_by_id sample_store (JStr ''n1'') = Some stored_nilai"
  by (simp add: find_by_id_def sample_store_def stored_nilai_def get_own_def)

text \<open>
  The counsellor can neither update nor delete the grade the teacher entered; the teacher
  and the administrator can delete it.
\<close>

theorem mutation_gate_witness:
  "updateData (sample_env ''bk'' ''Guru BK'' echo_backend) sample_store (JStr ''n1'')
       (JObj [(''nilai'', JNum 90)])
     = (Inl (Error ''Tidak memiliki izin untuk mengupdate data ini''), sample_store)
   \<and> deleteData (sample_env ''bk'' ''Guru BK'' echo_backend) sample_store (JStr ''n1'')
     = (Inl (Error ''Tidak memiliki izin untuk menghapus data ini''), sample_store)
   \<and> fst (deleteData (sample_env ''guru'' ''Guru Matematika'' echo_backend) sample_store (JStr ''n1''))
     = Inr True
   \<and> fst (deleteData (sample_env ''admin'' ''Administrator'' echo_backend) sample_store (JStr ''n1''))
     = Inr True"
proof -
  have other: "\<not> strict_eq (get_own stored_nilai ''author'') (JStr ''Guru BK'')"
    by (simp add: stored_nilai_def get_own_def)
  have denied:
    "updateData (sample_env ''bk'' ''Guru BK'' echo_backend) sample_store (JStr ''n1'')
         (JObj [(''nilai'', JNum 90)])
       = (Inl (Error ''Tidak memiliki izin untuk mengupdate data ini''), sample_store)
     \<and> deleteData (sample_env ''bk'' ''Guru BK'' echo_backend) sample_store (JStr ''n1'')
       = (Inl (Error ''Tidak memiliki izin untuk menghapus data ini''), sample_store)"
    using mutation_gate [of sample_store "JStr ''n1''" stored_nilai
        "sample_env ''bk'' ''Guru BK'' echo_backend" "\<lparr>role = ''bk'', name = JStr ''Guru BK''\<rparr>"
        "JObj [(''nilai'', JNum 90)]"]
      find_sample other
    by (simp add: sample_env_def)
  have own: "fst (deleteData (sample_env ''guru'' ''Guru Matematika'' echo_backend) sample_store
      (JStr ''n1'')) = Inr True"
    by (simp add: deleteData_def find_sample canDeleteData_def sample_env_def echo_backend_def
        stored_nilai_def get_own_def)
  have admin: "fst (deleteData (sample_env ''admin'' ''Administrator'' echo_backend) sample_store
      (JStr ''n1'')) = Inr True"
    by (simp add: deleteData_def find_sample canDeleteData_def sample_env_def echo_backend_def)
  from denied own admin show ?thesis by blast
qed

subsection \<open>Create and update\<close>

text \<open>
  C5. \<open>createData\<close> never changes the in-memory collection, whether it succeeds or
  fails; and when the backend reports failure for the record it was sent, the outcome is
  the error \<open>Gagal menyimpan data\<close> and the store is untouched.
\<close>

theorem createData_keeps_collection:
  "allData (snd (createData e s ty data)) = allData s
   \<and> (validateData (cfg e) (users s) ty data = Inr v \<and> is_valid v
        \<and> length (allData s) < max_data_items (cfg e)
        \<and> currentUser e = Some u \<and> dataSdk e = Some sdk
        \<and> \<not> isOk (sdk_create sdk (newData e u ty data)) \<longrightarrow>
        createData e s ty data = (Inl (Error ''Gagal menyimpan data''), s))"
  by (auto simp: createData_def invalidateCache_def Let_def split: sum.splits option.splits)

text \<open>
  The teacher creates the sample grade. With the failing backend the outcome is the error
  and the store is as before; with the accepting one the stamped record comes back and the
  collection is as before.
\<close>

theorem createData_keeps_collection_witness:
  "createData (sample_env ''guru'' ''Guru Matematika'' failing_backend) sample_store ''nilai''
       (JObj sample_nilai)
     = (Inl (Error ''Gagal menyimpan data''), sample_store)
   \<and> allData (snd (createData (sample_env ''guru'' ''Guru Matematika'' echo_backend) sample_store
        ''nilai'' (JObj sample_nilai))) = allData sample_store
   \<and> fst (createData (sample_env ''guru'' ''Guru Matematika'' echo_backend) sample_store
        ''nilai'' (JObj sample_nilai))
     = Inr (JObj (newData (sample_env ''guru'' ''Guru Matematika'' echo_backend)
         \<lparr>role = ''guru'', name = JStr ''Guru Matematika''\<rparr> ''nilai'' (JObj sample_nilai)))"
proof -
  have v: "validateData default_config defaultUsers ''nilai'' (JObj sample_nilai)
      = Inr (Verdict True None)"
    by code_simp
  have failed:
    "createData (sample_env ''guru'' ''Guru Matematika'' failing_backend) sample_store ''nilai''
         (JObj sample_nilai)
       = (Inl (Error ''Gagal menyimpan data''), sample_store)"
    using createData_keeps_collection
      [of "sample_env ''guru'' ''Guru Matematika'' failing_backend" sample_store "''nilai''"
        "JObj sample_nilai" "Verdict True None" "\<lparr>role = ''guru'', name = JStr ''Guru Matematika''\<rparr>"
        failing_backend]
      v
    by (simp add: sample_env_def sample_store_def default_config_def failing_backend_def)
  have kept:
    "allData (snd (createData (sample_env ''guru'' ''Guru Matematika'' echo_backend) sample_store
        ''nilai'' (JObj sample_nilai))) = allData sample_store"
    using createData_keeps_collection
      [of "sample_env ''guru'' ''Guru Matematika'' echo_backend" sample_store "''nilai''"
        "JObj sample_nilai"]
    by blast
  have ok: "fst (createData (sample_env ''guru'' ''Guru Matematika'' echo_backend) sample_store
        ''nilai'' (JObj sample_nilai))
     = Inr (JObj (newData (sample_env ''guru'' ''Guru Matematika'' echo_backend)
         \<lparr>role = ''guru'', name = JStr ''Guru Matematika''\<rparr> ''nilai'' (JObj sample_nilai)))"
    using v
    by (simp add: createData_def sample_env_def sample_store_def default_config_def
        echo_backend_def)
  from failed kept ok show ?thesis by blast
qed

text \<open>
  C9. \<open>updateData\<close> consults no validator. Once the record is found and the gate is
  passed, the merge of the stored record with the partial fields, stamped with
  \<open>updatedAt\<close>, is what the backend is sent, and the backend's reply alone decides the
  outcome, for every partial field set: when the backend accepts a merge that
  \<open>validateData\<close> rejects, the update succeeds.
\<close>

theorem updateData_sends_merge_unvalidated:
  "(find_by_id s ident = Some existingData \<and> canUpdateData e existingData \<and> dataSdk e = Some sdk \<longrightarrow>
      updateData e s ident data
        = (if isOk (sdk_update sdk (merged_update e existingData data))
           then (Inr (reply_data (sdk_update sdk (merged_update e existingData data))), invalidateCache s)
           else (Inl (Error ''Gagal mengupdate data''), s)))
   \<and> (find_by_id s ident = Some existingData \<and> canUpdateData e existingData \<and> dataSdk e = Some sdk
        \<and> isOk (sdk_update sdk (merged_update e existingData data))
        \<and> validateData (cfg e) (users s) ty (JObj (merged_update e existingData data))
            = Inr (Verdict False m) \<longrightarrow>
        fst (updateData e s ident data)
          = Inr (reply_data (sdk_update sdk (merged_update e existingData data))))"
  by (simp add: updateData_def Let_def)

text \<open>
  The administrator sets the score of the stored grade to 105. Validation of the merged
  record rejects it; the update sends it and succeeds.
\<close>

theorem updateData_sends_merge_unvalidated_witness:
  "validateData default_config defaultUsers ''nilai''
       (JObj (merged_update (sample_env ''admin'' ''Administrator'' echo_backend) stored_nilai
          (JObj [(''nilai'', JNum 105)])))
     = Inr (Verdict False (Some ''Nilai harus antara 0 dan 100''))
   \<and> updateData (sample_env ''admin'' ''Administrator'' echo_backend) sample_store (JStr ''n1'')
       (JObj [(''nilai'', JNum 105)])
     = (Inr (JObj (merged_update (sample_env ''admin'' ''Administrator'' echo_backend) stored_nilai
          (JObj [(''nilai'', JNum 105)]))), invalidateCache sample_store)
   \<and> get_own (merged_update (sample_env ''admin'' ''Administrator'' echo_backend) stored_nilai
          (JObj [(''nilai'', JNum 105)])) ''nilai'' = JNum 105"
proof -
  have rejected: "validateData default_config defaultUsers ''nilai''
       (JObj (merged_update (sample_env ''admin'' ''Administrator'' echo_backend) stored_nilai
          (JObj [(''nilai'', JNum 105)])))
     = Inr (Verdict False (Some ''Nilai harus antara 0 dan 100''))"
    by code_simp
  have gate: "canUpdateData (sample_env ''admin'' ''Administrator'' echo_backend) stored_nilai"
    by (simp add: canUpdateData_def sample_env_def)
  have sdk: "dataSdk (sample_env ''admin'' ''Administrator'' echo_backend) = Some echo_backend"
    by (simp add: sample_env_def)
  have sent: "updateData (sample_env ''admin'' ''Administrator'' echo_backend) sample_store (JStr ''n1'')
       (JObj [(''nilai'', JNum 105)])
     = (Inr (JObj (merged_update (sample_env ''admin'' ''Administrator'' echo_backend) stored_nilai
          (JObj [(''nilai'', JNum 105)]))), invalidateCache sample_store)"
    using updateData_sends_merge_unvalidated
      [where s = sample_store and ident = "JStr ''n1''" and existingData = stored_nilai
         and e = "sample_env ''admin'' ''Administrator'' echo_backend" and sdk = echo_backend
         and data = "JObj [(''nilai'', JNum 105)]"]
      find_sample gate sdk
    by (simp add: echo_backend_def)
  have score: "get_own (merged_update (sample_env ''admin'' ''Administrator'' echo_backend) stored_nilai
          (JObj [(''nilai'', JNum 105)])) ''nilai'' = JNum 105"
    by code_simp
  from rejected sent score show ?thesis by blast
qed

subsection \<open>Sorting\<close>

lemma insert_sorted_dated:
  assumes "\<exists>t. snd x = Some t" and "\<forall>y \<in> set ys. \<exists>t. snd y = Some t"
  shows "insert_sorted (\<lambda>a b. date_compare (snd a) (snd b)) x ys
           = insort_key (\<lambda>q. - the (snd q)) x ys"
  using assms by (induction ys) (auto simp: date_compare_def)

lemma js_sort_dated:
  assumes "\<forall>y \<in> set zs. \<exists>t. snd y = Some t"
  shows "js_sort (\<lambda>a b. date_compare (snd a) (snd b)) zs = sort_key (\<lambda>q. - the (snd q)) zs"
  using assms
proof (induction zs)
  case Nil
  then show ?case by (simp add: js_sort_def)
next
  case (Cons z zs)
  then have ih: "js_sort (\<lambda>a b. date_compare (snd a) (snd b)) zs = sort_key (\<lambda>q. - the (snd q)) zs"
    by simp
  have "insert_sorted (\<lambda>a b. date_compare (snd a) (snd b)) z (sort_key (\<lambda>q. - the (snd q)) zs)
      = insort_key (\<lambda>q. - the (snd q)) z (sort_key (\<lambda>q. - the (snd q)) zs)"
    by (rule insert_sorted_dated) (use Cons.prems in simp_all)
  then show ?case
    using ih by (simp add: js_sort_def)
qed

lemma insort_key_map:
  "insort_key f (h x) (map h ys) = map h (insort_key (\<lambda>y. f (h y)) x ys)"
  by (induction ys) simp_all

lemma sort_key_map: "sort_key f (map h xs) = map h (sort_key (\<lambda>y. f (h y)) xs)"
  by (induction xs) (simp_all add: insort_key_map)

lemma map_res_dated:
  assumes "\<forall>d \<in> set xs. \<exists>t. sort_date parse d = Inr (Some t)"
  shows "map_res (\<lambda>d. bind_res (sort_date parse d) (\<lambda>t. Inr (d, t))) xs
           = Inr (map (\<lambda>d. (d, Some (case sort_date parse d of Inr (Some t) \<Rightarrow> t | _ \<Rightarrow> 0))) xs)"
  using assms by (induction xs) (auto simp: bind_res_def)

lemma sort_key_short: "length xs < 2 \<Longrightarrow> sort_key f xs = xs"
  by (cases xs) (auto simp: less_Suc_eq)

lemma sort_newest_first_dated:
  assumes "\<forall>d \<in> set xs. \<exists>t. sort_date (date_parse e) d = Inr (Some t)"
  shows "sort_newest_first (date_parse e) xs = Inr (sort_key (\<lambda>d. - created_time e d) xs)"
proof (cases "length xs < 2")
  case True
  then show ?thesis
    by (simp add: sort_newest_first_def sort_key_short)
next
  case False
  let ?h = "\<lambda>d. (d, Some (created_time e d))"
  have dated: "map_res (\<lambda>d. bind_res (sort_date (date_parse e) d) (\<lambda>t. Inr (d, t))) xs
      = Inr (map ?h xs)"
    using map_res_dated [OF assms] by (simp add: created_time_def)
  have "js_sort (\<lambda>a b. date_compare (snd a) (snd b)) (map ?h xs)
      = sort_key (\<lambda>q. - the (snd q)) (map ?h xs)"
    by (rule js_sort_dated) simp
  also have "\<dots> = map ?h (sort_key (\<lambda>d. - created_time e d) xs)"
    by (simp add: sort_key_map)
  finally have "map fst (js_sort (\<lambda>a b. date_compare (snd a) (snd b)) (map ?h xs))
      = sort_key (\<lambda>d. - created_time e d) xs"
    by (simp add: comp_def)
  then show ?thesis
    using False unfolding sort_newest_first_def dated by (simp add: bind_res_def)
qed

lemma getFilteredData_miss:
  assumes "getCachedData e s (cache_key ty filters) = None"
  shows "fst (getFilteredData e s ty filters)
           = sort_newest_first (date_parse e) (matching e s ty filters)"
  using assms by (simp add: getFilteredData_def split: sum.splits)

text \<open>
  C2 (as amended). On a cache miss, when every selected record has a valid date, the query
  returns the selected records sorted descending by \<open>new Date(createdAt || date)\<close>,
  records of equal time in their collection order; \<open>updatedAt\<close> plays no part.
\<close>

theorem query_sorts_by_creation_date:
  assumes "getCachedData e s (cache_key ty filters) = None"
    and "\<forall>d \<in> set (matching e s ty filters). \<exists>t. sort_date (date_parse e) d = Inr (Some t)"
  shows "\<exists>ys. fst (getFilteredData e s ty filters) = Inr ys
           \<and> mset ys = mset (matching e s ty filters)
           \<and> newest_first (created_time e) ys
           \<and> (\<forall>t. filter (\<lambda>d. created_time e d = t) ys
                   = filter (\<lambda>d. created_time e d = t) (matching e s ty filters))"
proof -
  let ?xs = "matching e s ty filters"
  let ?ys = "sort_key (\<lambda>d. - created_time e d) ?xs"
  have res: "fst (getFilteredData e s ty filters) = Inr ?ys"
    by (simp add: getFilteredData_miss [OF assms(1)] sort_newest_first_dated [OF assms(2)])
  have "sorted (map (\<lambda>d. - created_time e d) ?ys)"
    by (rule sorted_sort_key)
  then have desc: "newest_first (created_time e) ?ys"
    by (simp add: newest_first_def sorted_map)
  have stable: "filter (\<lambda>d. created_time e d = t) ?ys = filter (\<lambda>d. created_time e d = t) ?xs" for t
    using sort_key_stable [of "\<lambda>d. - created_time e d" "- t" ?xs] by simp
  from res desc stable show ?thesis
    by simp
qed

text \<open>
  The three lesson plans dated January, March, February come back as March, February,
  January.
\<close>

theorem query_sorts_by_creation_date_witness:
  "getCachedData (sample_env ''admin'' ''Administrator'' echo_backend) dated_store
       (cache_key ''intra'' []) = None
   \<and> fst (getFilteredData (sample_env ''admin'' ''Administrator'' echo_backend) dated_store ''intra'' [])
     = Inr [[(''type'', JStr ''intra''), (''createdAt'', JStr ''2024-03-01'')],
            [(''type'', JStr ''intra''), (''date'', JStr ''2024-02-01'')],
            [(''type'', JStr ''intra''), (''createdAt'', JStr ''2024-01-01'')]]
   \<and> newest_first (created_time (sample_env ''admin'' ''Administrator'' echo_backend))
        [[(''type'', JStr ''intra''), (''createdAt'', JStr ''2024-03-01'')],
         [(''type'', JStr ''intra''), (''date'', JStr ''2024-02-01'')],
         [(''type'', JStr ''intra''), (''createdAt'', JStr ''2024-01-01'')]]"
proof -
  let ?e = "sample_env ''admin'' ''Administrator'' echo_backend"
  have miss: "getCachedData ?e dated_store (cache_key ''intra'' []) = None"
    by (simp add: getCachedData_def dated_store_def)
  have m: "matching ?e dated_store ''intra'' [] = three_dated"
    by code_simp
  have dp: "date_parse ?e = iso_dates"
    by (simp add: sample_env_def)
  have valid: "\<forall>d \<in> set (matching ?e dated_store ''intra'' []).
      \<exists>t. sort_date (date_parse ?e) d = Inr (Some t)"
    unfolding m dp
    by (simp add: three_dated_def sort_date_def time_value_def js_or_def get_own_def bind_res_def
        iso_dates_def)
  have r: "fst (getFilteredData ?e dated_store ''intra'' [])
     = Inr [[(''type'', JStr ''intra''), (''createdAt'', JStr ''2024-03-01'')],
            [(''type'', JStr ''intra''), (''date'', JStr ''2024-02-01'')],
            [(''type'', JStr ''intra''), (''createdAt'', JStr ''2024-01-01'')]]"
    by code_simp
  from query_sorts_by_creation_date [OF miss valid] r
  have "newest_first (created_time ?e)
        [[(''type'', JStr ''intra''), (''createdAt'', JStr ''2024-03-01'')],
         [(''type'', JStr ''intra''), (''date'', JStr ''2024-02-01'')],
         [(''type'', JStr ''intra''), (''createdAt'', JStr ''2024-01-01'')]]"
    by auto
  with miss r show ?thesis by blast
qed

text \<open>
  C2 as stated fails: the grade edited in March was created before the other one and is
  returned after it, against the order of effective timestamps.
\<close>

theorem query_ignores_updatedAt_counterexample:
  "fst (getFilteredData (sample_env ''admin'' ''Administrator'' echo_backend) edited_store ''nilai'' [])
     = Inr [untouched_new, edited_old]
   \<and> spec_effective_time (sample_env ''admin'' ''Administrator'' echo_backend) untouched_new
       < spec_effective_time (sample_env ''admin'' ''Administrator'' echo_backend) edited_old
   \<and> \<not> newest_first (spec_effective_time (sample_env ''admin'' ''Administrator'' echo_backend))
         [untouched_new, edited_old]"
proof -
  have r: "fst (getFilteredData (sample_env ''admin'' ''Administrator'' echo_backend) edited_store ''nilai'' [])
     = Inr [untouched_new, edited_old]"
    by code_simp
  have a: "spec_effective_time (sample_env ''admin'' ''Administrator'' echo_backend) untouched_new
      = 1706745600000"
    by code_simp
  have b: "spec_effective_time (sample_env ''admin'' ''Administrator'' echo_backend) edited_old
      = 1709251200000"
    by code_simp
  show ?thesis
    by (simp add: r a b newest_first_def)
qed

subsection \<open>Visibility\<close>

lemma cache_miss_empty: "cache s = Map.empty \<Longrightarrow> getCachedData e s key = None"
  by (simp add: getCachedData_def)

lemma mset_insert_sorted: "mset (insert_sorted cmp x ys) = add_mset x (mset ys)"
  by (induction ys) simp_all

lemma mset_js_sort: "mset (js_sort cmp xs) = mset xs"
  by (induction xs) (simp_all add: js_sort_def mset_insert_sorted)

lemma map_res_fst:
  "map_res (\<lambda>d. bind_res (g d) (\<lambda>t. Inr (d, t))) xs = Inr zs \<Longrightarrow> map fst zs = xs"
  by (induction xs arbitrary: zs) (auto simp: bind_res_def split: sum.splits)

lemma sort_newest_first_mset:
  assumes "sort_newest_first parse xs = Inr ys"
  shows "mset ys = mset xs"
proof (cases "length xs < 2")
  case True
  then show ?thesis
    using assms by (simp add: sort_newest_first_def)
next
  case False
  then obtain zs where zs: "map_res (\<lambda>d. bind_res (sort_date parse d) (\<lambda>t. Inr (d, t))) xs = Inr zs"
    and ys: "ys = map fst (js_sort (\<lambda>a b. date_compare (snd a) (snd b)) zs)"
    using assms by (auto simp: sort_newest_first_def bind_res_def split: sum.splits)
  have "mset ys = image_mset fst (mset (js_sort (\<lambda>a b. date_compare (snd a) (snd b)) zs))"
    by (simp add: ys)
  also have "\<dots> = mset (map fst zs)"
    by (simp add: mset_js_sort)
  finally show ?thesis
    by (simp add: map_res_fst [OF zs])
qed

lemma fold_apply_filter_subset: "set (fold (apply_filter filters) keys xs) \<subseteq> set xs"
proof (induction keys arbitrary: xs)
  case Nil
  then show ?case by simp
next
  case (Cons key keys)
  have "set (fold (apply_filter filters) keys (apply_filter filters key xs))
      \<subseteq> set (apply_filter filters key xs)"
    by (rule Cons.IH)
  also have "\<dots> \<subseteq> set xs"
    by (auto simp: apply_filter_def Let_def)
  finally show ?case by simp
qed

text \<open>
  On a cache miss the student role receives approved records only, for every type and
  every filter set.
\<close>

lemma siswa_miss_only_approved:
  assumes "currentUser e = Some u" and "role u = ''siswa''"
    and "getCachedData e s (cache_key ty filters) = None"
    and "fst (getFilteredData e s ty filters) = Inr ys"
    and "d \<in> set ys"
  shows "get_own d ''approved'' = JBool True"
proof -
  have "sort_newest_first (date_parse e) (matching e s ty filters) = Inr ys"
    using assms(3,4) by (simp add: getFilteredData_miss)
  then have "set ys = set (matching e s ty filters)"
    using sort_newest_first_mset mset_eq_setD by blast
  then have "d \<in> set (role_filter (currentUser e)
      (filter (\<lambda>d. strict_eq (get_own d ''type'') (JStr ty)) (allData s)))"
    using assms(5) fold_apply_filter_subset unfolding matching_def by blast
  then have "strict_eq (get_own d ''approved'') (JBool True)"
    using assms(1,2) by (simp add: role_filter_def)
  then show ?thesis
    by (cases "get_own d ''approved''") simp_all
qed

text \<open>
  C1 does not hold of the code. The cache key is the type and the filters and leaves the
  identity out: the list the administrator's query cached is served one second later to the
  student role, with the unapproved grade in it. The same query on a cache without that
  entry gives the student the empty list.
\<close>

theorem siswa_served_unapproved_from_cache:
  "fst (getFilteredData
          ((sample_env ''siswa'' ''Siswa/Orang Tua'' echo_backend)\<lparr>clock := 1717200001000\<rparr>)
          (snd (getFilteredData (sample_env ''admin'' ''Administrator'' echo_backend) sample_store
                  ''nilai'' []))
          ''nilai'' [])
     = Inr [stored_nilai]
   \<and> get_own stored_nilai ''approved'' = JBool False
   \<and> fst (getFilteredData
          ((sample_env ''siswa'' ''Siswa/Orang Tua'' echo_backend)\<lparr>clock := 1717200001000\<rparr>)
          sample_store ''nilai'' [])
     = Inr []"
  by code_simp

subsection \<open>Cache coherence\<close>

lemma matching_cache_irrelevant: "allData s' = allData s \<Longrightarrow> matching e s' ty fs = matching e s ty fs"
  by (simp add: matching_def)

lemma getFilteredData_allData: "allData (snd (getFilteredData e s ty fs)) = allData s"
  by (simp add: getFilteredData_def setCachedData_def split: option.splits sum.splits)

lemma getFilteredData_fresh:
  assumes "\<forall>key c. cache s key = Some c \<longrightarrow> computed_on_resync e s key c"
    and "cache (snd (getFilteredData e s ty [])) key = Some c"
    and "ty \<in> set (page_queries e)"
  shows "computed_on_resync e (snd (getFilteredData e s ty [])) key c"
proof -
  have same: "computed_on_resync e (snd (getFilteredData e s ty [])) k c' = computed_on_resync e s k c'"
    for k c'
    by (simp add: computed_on_resync_def matching_cache_irrelevant [OF getFilteredData_allData])
  show ?thesis
  proof (cases "getCachedData e s (cache_key ty [])")
    case (Some cached)
    then have "snd (getFilteredData e s ty []) = s"
      by (simp add: getFilteredData_def)
    then show ?thesis
      using assms by simp
  next
    case None
    show ?thesis
    proof (cases "sort_newest_first (date_parse e) (matching e s ty [])")
      case (Inl err)
      then have "snd (getFilteredData e s ty []) = s"
        using None by (simp add: getFilteredData_def)
      then show ?thesis
        using assms by simp
    next
      case (Inr sorted)
      then have s': "snd (getFilteredData e s ty []) = setCachedData e s (cache_key ty []) sorted"
        using None by (simp add: getFilteredData_def)
      show ?thesis
      proof (cases "cache s key = Some c")
        case True
        then show ?thesis
          using assms(1) same by simp
      next
        case False
        then have "key = cache_key ty []" and "c = \<lparr>entry_data = sorted, entry_timestamp = clock e\<rparr>"
          using assms(2) unfolding s' by (auto simp: setCachedData_def split: if_splits)
        then have "computed_on_resync e s key c"
          using Inr assms(3) by (auto simp: computed_on_resync_def)
        then show ?thesis
          using same by simp
      qed
    qed
  qed
qed

lemma renderCurrentPage_fresh:
  assumes "\<forall>key c. cache s key = Some c \<longrightarrow> computed_on_resync e s key c"
    and "set tys \<subseteq> set (page_queries e)"
  shows "allData (snd (renderCurrentPage e s tys)) = allData s
       \<and> (\<forall>key c. cache (snd (renderCurrentPage e s tys)) key = Some c \<longrightarrow>
             computed_on_resync e (snd (renderCurrentPage e s tys)) key c)"
  using assms
proof (induction tys arbitrary: s)
  case Nil
  then show ?case by simp
next
  case (Cons ty tys)
  let ?s1 = "snd (getFilteredData e s ty [])"
  have here: "ty \<in> set (page_queries e)" and later: "set tys \<subseteq> set (page_queries e)"
    using Cons.prems(2) by simp_all
  have fresh1: "\<forall>key c. cache ?s1 key = Some c \<longrightarrow> computed_on_resync e ?s1 key c"
    using getFilteredData_fresh [OF Cons.prems(1) _ here] by blast
  have data1: "allData ?s1 = allData s"
    by (rule getFilteredData_allData)
  show ?case
  proof (cases "fst (getFilteredData e s ty [])")
    case (Inl err)
    then have "snd (renderCurrentPage e s (ty # tys)) = ?s1"
      by (cases "getFilteredData e s ty []") simp
    then show ?thesis
      using fresh1 data1 by simp
  next
    case (Inr shown)
    then have "renderCurrentPage e s (ty # tys) = renderCurrentPage e ?s1 tys"
      by (cases "getFilteredData e s ty []") simp
    then show ?thesis
      using Cons.IH [OF fresh1 later] data1 by simp
  qed
qed

lemma handleDataChange_fresh:
  assumes "handleDataChange e s data = (None, s')"
  shows "allData s' = data \<and> (\<forall>key c. cache s' key = Some c \<longrightarrow> computed_on_resync e s' key c)"
proof -
  obtain err us where u: "updateUsersFromData (users s) data = (err, us)"
    by (cases "updateUsersFromData (users s) data")
  with assms have none: "err = None"
    by (cases err) (simp_all add: handleDataChange_def)
  let ?s0 = "invalidateCache (s\<lparr>allData := data, users := us\<rparr>)"
  have empty: "\<forall>key c. cache ?s0 key = Some c \<longrightarrow> computed_on_resync e ?s0 key c"
    by (simp add: invalidateCache_def)
  show ?thesis
  proof (cases "currentUser e = None")
    case True
    then have "s' = ?s0"
      using assms u none by (simp add: handleDataChange_def)
    then show ?thesis
      by (simp add: invalidateCache_def)
  next
    case False
    then have "s' = snd (renderCurrentPage e ?s0 (page_queries e))"
      using assms u none by (auto simp: handleDataChange_def Let_def split: prod.splits)
    then show ?thesis
      using renderCurrentPage_fresh [OF empty subset_refl]
      by (simp add: invalidateCache_def)
  qed
qed

lemma handleDataChange_forgets_cache:
  assumes "handleDataChange e s data = (None, s')"
  shows "handleDataChange e (s\<lparr>cache := old\<rparr>) data = (None, s')"
  using assms
  by (auto simp: handleDataChange_def invalidateCache_def split: prod.splits option.splits)

text \<open>
  C3 (as amended). A successful create, update or delete leaves the cache empty, and a query
  on a store whose cache is empty computes its result from the collection. A successful
  resynchronisation replaces the collection and drops whatever the cache held, whatever that
  was; if someone is signed in it then refreshes the page on display, so the cache may hold
  entries afterwards, each of them computed during the resynchronisation from the new
  collection. With nobody signed in, or a page that queries nothing, the cache is empty.
\<close>

theorem mutations_leave_no_stale_cache:
  "(createData e s ty data = (Inr created, s') \<longrightarrow> cache s' = Map.empty)
   \<and> (updateData e s ident data = (Inr updated, s') \<longrightarrow> cache s' = Map.empty)
   \<and> (deleteData e s ident = (Inr deleted, s') \<longrightarrow> cache s' = Map.empty)
   \<and> (cache s' = Map.empty \<longrightarrow>
        fst (getFilteredData e' s' ty' filters)
          = sort_newest_first (date_parse e') (matching e' s' ty' filters))
   \<and> (handleDataChange e s rows = (None, s') \<longrightarrow>
        handleDataChange e (s\<lparr>cache := old\<rparr>) rows = (None, s')
        \<and> allData s' = rows
        \<and> (\<forall>key c. cache s' key = Some c \<longrightarrow> computed_on_resync e s' key c)
        \<and> (currentUser e = None \<or> page_queries e = [] \<longrightarrow> cache s' = Map.empty))"
proof -
  have c: "createData e s ty data = (Inr created, s') \<longrightarrow> cache s' = Map.empty"
    by (auto simp: createData_def invalidateCache_def Let_def
        split: sum.splits option.splits if_splits)
  have u: "updateData e s ident data = (Inr updated, s') \<longrightarrow> cache s' = Map.empty"
    by (auto simp: updateData_def invalidateCache_def Let_def split: option.splits if_splits)
  have d: "deleteData e s ident = (Inr deleted, s') \<longrightarrow> cache s' = Map.empty"
    by (auto simp: deleteData_def invalidateCache_def Let_def split: option.splits if_splits)
  have q: "cache s' = Map.empty \<longrightarrow>
        fst (getFilteredData e' s' ty' filters)
          = sort_newest_first (date_parse e') (matching e' s' ty' filters)"
    by (simp add: getFilteredData_miss cache_miss_empty)
  have r: "handleDataChange e s rows = (None, s') \<longrightarrow>
        handleDataChange e (s\<lparr>cache := old\<rparr>) rows = (None, s')
        \<and> allData s' = rows
        \<and> (\<forall>key c. cache s' key = Some c \<longrightarrow> computed_on_resync e s' key c)
        \<and> (currentUser e = None \<or> page_queries e = [] \<longrightarrow> cache s' = Map.empty)"
  proof
    assume h: "handleDataChange e s rows = (None, s')"
    have "cache s' = Map.empty" if "currentUser e = None \<or> page_queries e = []"
      using h that
      by (auto simp: handleDataChange_def invalidateCache_def Let_def
          split: prod.splits option.splits if_splits)
    then show "handleDataChange e (s\<lparr>cache := old\<rparr>) rows = (None, s')
        \<and> allData s' = rows
        \<and> (\<forall>key c. cache s' key = Some c \<longrightarrow> computed_on_resync e s' key c)
        \<and> (currentUser e = None \<or> page_queries e = [] \<longrightarrow> cache s' = Map.empty)"
      using handleDataChange_fresh [OF h] handleDataChange_forgets_cache [OF h] by blast
  qed
  from c u d q r show ?thesis
    by blast
qed

lemma resync_succeeds:
  "fst (handleDataChange intra_page_env sample_store three_dated) = None"
  by code_simp

text \<open>
  A create that succeeds on a store with a cached (empty) grade list leaves no cache, and
  the query after it computes the list anew; the entry found after the resynchronisation
  of the counterexample below is one computed from the new collection.
\<close>

theorem mutations_leave_no_stale_cache_witness:
  "cache (snd (createData (sample_env ''guru'' ''Guru Matematika'' echo_backend)
        (sample_store\<lparr>cache := [''nilai_{}'' \<mapsto> \<lparr>entry_data = [], entry_timestamp = 1717199999000\<rparr>]\<rparr>)
        ''nilai'' (JObj sample_nilai))) = Map.empty
   \<and> fst (getFilteredData (sample_env ''guru'' ''Guru Matematika'' echo_backend)
        (snd (createData (sample_env ''guru'' ''Guru Matematika'' echo_backend)
          (sample_store\<lparr>cache := [''nilai_{}'' \<mapsto> \<lparr>entry_data = [], entry_timestamp = 1717199999000\<rparr>]\<rparr>)
          ''nilai'' (JObj sample_nilai)))
        ''nilai'' [])
     = Inr [stored_nilai]
   \<and> computed_on_resync intra_page_env (snd (handleDataChange intra_page_env sample_store three_dated))
        ''intra_{}''
        \<lparr>entry_data =
           [[(''type'', JStr ''intra''), (''createdAt'', JStr ''2024-03-01'')],
            [(''type'', JStr ''intra''), (''date'', JStr ''2024-02-01'')],
            [(''type'', JStr ''intra''), (''createdAt'', JStr ''2024-01-01'')]],
         entry_timestamp = 1717200000000\<rparr>"
proof -
  let ?e = "sample_env ''guru'' ''Guru Matematika'' echo_backend"
  let ?s = "sample_store\<lparr>cache := [''nilai_{}'' \<mapsto> \<lparr>entry_data = [], entry_timestamp = 1717199999000\<rparr>]\<rparr>"
  let ?u = "\<lparr>role = ''guru'', name = JStr ''Guru Matematika''\<rparr>"
  let ?s' = "snd (createData ?e ?s ''nilai'' (JObj sample_nilai))"
  have v: "validateData default_config defaultUsers ''nilai'' (JObj sample_nilai)
      = Inr (Verdict True None)"
    by code_simp
  have created: "createData ?e ?s ''nilai'' (JObj sample_nilai)
      = (Inr (JObj (newData ?e ?u ''nilai'' (JObj sample_nilai))), ?s')"
    using v
    by (simp add: createData_def sample_env_def sample_store_def default_config_def
        echo_backend_def)
  have empty: "cache ?s' = Map.empty"
    using mutations_leave_no_stale_cache
      [where e = ?e and s = ?s and ty = "''nilai''" and data = "JObj sample_nilai"
         and created = "JObj (newData ?e ?u ''nilai'' (JObj sample_nilai))" and s' = ?s']
      created
    by blast
  have "fst (getFilteredData ?e ?s' ''nilai'' [])
      = sort_newest_first (date_parse ?e) (matching ?e ?s' ''nilai'' [])"
    using mutations_leave_no_stale_cache
      [where s' = ?s' and e' = ?e and ty' = "''nilai''" and filters = "[]"]
      empty
    by blast
  also have "\<dots> = Inr [stored_nilai]"
    by code_simp
  finally have recomputed: "fst (getFilteredData ?e ?s' ''nilai'' []) = Inr [stored_nilai]" .
  let ?r = "snd (handleDataChange intra_page_env sample_store three_dated)"
  have ok: "handleDataChange intra_page_env sample_store three_dated = (None, ?r)"
    using resync_succeeds by (metis prod.collapse)
  have entry: "cache ?r ''intra_{}''
     = Some \<lparr>entry_data =
         [[(''type'', JStr ''intra''), (''createdAt'', JStr ''2024-03-01'')],
          [(''type'', JStr ''intra''), (''date'', JStr ''2024-02-01'')],
          [(''type'', JStr ''intra''), (''createdAt'', JStr ''2024-01-01'')]],
        entry_timestamp = 1717200000000\<rparr>"
    by code_simp
  have fresh: "computed_on_resync intra_page_env ?r ''intra_{}''
        \<lparr>entry_data =
           [[(''type'', JStr ''intra''), (''createdAt'', JStr ''2024-03-01'')],
            [(''type'', JStr ''intra''), (''date'', JStr ''2024-02-01'')],
            [(''type'', JStr ''intra''), (''createdAt'', JStr ''2024-01-01'')]],
         entry_timestamp = 1717200000000\<rparr>"
    using mutations_leave_no_stale_cache
      [where e = intra_page_env and s = sample_store and rows = three_dated and s' = ?r]
      ok entry
    by blast
  from empty recomputed fresh show ?thesis by blast
qed

text \<open>
  C3 as stated fails: with the administrator on the lesson-plan page, a successful
  resynchronisation ends with the list of lesson plans in the cache.
\<close>

theorem resync_recaches_counterexample:
  "fst (handleDataChange intra_page_env sample_store three_dated) = None
   \<and> cache (snd (handleDataChange intra_page_env sample_store three_dated)) ''intra_{}''
     = Some \<lparr>entry_data =
         [[(''type'', JStr ''intra''), (''createdAt'', JStr ''2024-03-01'')],
          [(''type'', JStr ''intra''), (''date'', JStr ''2024-02-01'')],
          [(''type'', JStr ''intra''), (''createdAt'', JStr ''2024-01-01'')]],
        entry_timestamp = 1717200000000\<rparr>
   \<and> cache (snd (handleDataChange intra_page_env sample_store three_dated)) \<noteq> Map.empty"
proof -
  have a: "fst (handleDataChange intra_page_env sample_store three_dated) = None"
    by code_simp
  have b: "cache (snd (handleDataChange intra_page_env sample_store three_dated)) ''intra_{}''
     = Some \<lparr>entry_data =
         [[(''type'', JStr ''intra''), (''createdAt'', JStr ''2024-03-01'')],
          [(''type'', JStr ''intra''), (''date'', JStr ''2024-02-01'')],
          [(''type'', JStr ''intra''), (''createdAt'', JStr ''2024-01-01'')]],
        entry_timestamp = 1717200000000\<rparr>"
    by code_simp
  from b have "cache (snd (handleDataChange intra_page_env sample_store three_dated)) \<noteq> Map.empty"
    by (metis option.distinct(1))
  with a b show ?thesis by blast
qed

end
